theory Spec2Isabelle
  imports Complex_Main
begin

section \<open>Numbers, strings, time and errors\<close>

text \<open>
  Conventions of the embedding.
  \<^item> A Python \<open>float\<close> is a binary64 number. A rational in the place of a float stands
    for the binary64 number nearest to it (\<open>fl\<close>, ties to the even significand): the
    literal \<open>1.15\<close> is \<open>115 / 100\<close> and stands for the number the interpreter reads
    it as. Multiplication and division of floats (\<open>float_mul\<close>, \<open>float_div\<close>) round their
    result to binary64, and \<open>round(x, n)\<close> (\<open>py_round\<close>) rounds the binary value of \<open>x\<close>.
    The significand has 53 bits and the exponent is not bounded: infinities, NaN, overflow
    (beyond about 1.8e308) and subnormal numbers (below about 2.2e-308) are outside the
    model, and the two zeros are one number.
  \<^item> The occupancy ratio and the time to departure are only compared with thresholds and
    are kept exact. The code compares their binary64 values with binary64 thresholds; the
    outcome is the same for a time to departure of a whole number of microseconds (every
    difference of two datetimes) and for an occupancy ratio of fewer than 10^15 seats.
  \<^item> A Python \<open>int\<close> is an \<open>int\<close>.
  \<^item> A naive \<open>datetime\<close> is a number of microseconds on one linear time axis; the
    difference of two of them is a \<open>timedelta\<close>, a number of microseconds.
  \<^item> \<open>datetime.now()\<close> is the parameter \<open>now\<close> of every function that reads the clock.
  \<^item> \<open>datetime.strptime(s, "%Y-%m-%d %H:%M:%S")\<close> is the parameter \<open>strptime\<close>: it
    returns \<open>None\<close> where Python raises \<open>ValueError\<close>. Theorems hold for every such
    parser; closed examples use the parser \<open>strptime_iso\<close> below.
\<close>

datatype py_error = ZeroDivisionError | ValueError

type_synonym datetime = int

type_synonym timedelta = int

text \<open>\<open>timedelta.total_seconds()\<close>.\<close>

definition total_seconds :: "timedelta \<Rightarrow> rat" where
  "total_seconds td = of_int td / 10 ^ 6"

subsection \<open>Binary64 arithmetic\<close>

text \<open>\<open>int.bit_length()\<close> of a positive integer.\<close>

function bit_length :: "int \<Rightarrow> int" where
  "bit_length n = (if n \<le> 0 then 0 else 1 + bit_length (n div 2))"
  by pat_completeness auto
termination
  by (relation "measure nat") auto

declare bit_length.simps [simp del]

definition pow2 :: "int \<Rightarrow> rat" where
  "pow2 e = (if 0 \<le> e then 2 ^ nat e else 1 / 2 ^ nat (- e))"

text \<open>
  The binary exponent of a rational \<open>x \<noteq> 0\<close>: the \<open>e\<close> with \<open>2^e \<le> |x| < 2^(e+1)\<close>. For
  \<open>|x| = p / q\<close> it is the difference of the bit lengths of \<open>p\<close> and \<open>q\<close>, or one less.
\<close>

definition float_exponent :: "rat \<Rightarrow> int" where
  "float_exponent x =
     (case quotient_of \<bar>x\<bar> of
        (p, q) \<Rightarrow>
          (let k = bit_length p - bit_length q
           in if pow2 k \<le> \<bar>x\<bar> then k else k - 1))"

text \<open>The nearest integer, a tie going to the even one.\<close>

definition round_half_even :: "rat \<Rightarrow> int" where
  "round_half_even y =
     (let f = \<lfloor>y\<rfloor>; d = y - of_int f
      in if d < 1 / 2 then f else if 1 / 2 < d then f + 1
         else if even f then f else f + 1)"

text \<open>
  The binary64 number nearest to \<open>x\<close>: \<open>x\<close> is rounded to a multiple of
  \<open>2^(e - 52)\<close>, where \<open>e\<close> is its binary exponent, so that 53 bits are kept.
\<close>

definition fl :: "rat \<Rightarrow> rat" where
  "fl x =
     (if x = 0 then 0
      else (let quantum = pow2 (float_exponent x - 52)
            in of_int (round_half_even (x / quantum)) * quantum))"

text \<open>\<open>x * y\<close> and \<open>x / y\<close> on floats (\<open>y\<close> is never zero where the code divides).\<close>

definition float_mul :: "rat \<Rightarrow> rat \<Rightarrow> rat" where
  "float_mul x y = fl (fl x * fl y)"

definition float_div :: "rat \<Rightarrow> rat \<Rightarrow> rat" where
  "float_div x y = fl (fl x / fl y)"

text \<open>
  \<open>round(x, n)\<close> on a float: the binary value of \<open>x\<close> is rounded to \<open>n\<close> decimals, a tie
  going to the even neighbour, and the decimal is read back as a float. So
  \<open>round(2.675, 2)\<close> is 2.67, the binary value of 2.675 being below the tie, and
  \<open>round(0.125, 2)\<close> is 0.12.
\<close>

definition py_round :: "rat \<Rightarrow> nat \<Rightarrow> rat" where
  "py_round x n = of_int (round_half_even (fl x * 10 ^ n)) / 10 ^ n"

text \<open>
  \<open>str.lower()\<close>, on the letters A to Z. (No other character lowers to a letter of
  \<open>high\<close> or \<open>low\<close>, the only strings the result is compared with.)
\<close>

definition lower_char :: "char \<Rightarrow> char" where
  "lower_char c =
     (case map_of (zip ''ABCDEFGHIJKLMNOPQRSTUVWXYZ'' ''abcdefghijklmnopqrstuvwxyz'') c of
        Some d \<Rightarrow> d
      | None \<Rightarrow> c)"

definition lower :: "string \<Rightarrow> string" where
  "lower s = map lower_char s"

subsection \<open>A parser for the closed examples\<close>

text \<open>
  \<open>strptime_iso\<close> reads exactly the zero-padded form \<open>YYYY-MM-DD HH:MM:SS\<close> of a valid
  date (year 1 to 9999) and returns the microseconds since 0001-01-01 00:00:00, counting
  days as \<open>datetime.toordinal\<close> does. Python's \<open>strptime\<close> reads these strings to the same
  instant and rejects a string without digits; no theorem below depends on more.
\<close>

definition digit_val :: "char \<Rightarrow> int option" where
  "digit_val c =
     map_of (zip ''0123456789'' [0, 1, 2, 3, 4, 5, 6, 7, 8, 9]) c"

fun digits_val :: "string \<Rightarrow> int option" where
  "digits_val [] = Some 0"
| "digits_val (c # cs) =
     (case digit_val c of
        None \<Rightarrow> None
      | Some d \<Rightarrow>
          (case digits_val cs of
             None \<Rightarrow> None
           | Some r \<Rightarrow> Some (d * 10 ^ length cs + r)))"

definition is_leap :: "int \<Rightarrow> bool" where
  "is_leap y = (y mod 4 = 0 \<and> (y mod 100 \<noteq> 0 \<or> y mod 400 = 0))"

definition days_in_month :: "int \<Rightarrow> int \<Rightarrow> int" where
  "days_in_month y m =
     (if m = 2 then (if is_leap y then 29 else 28)
      else if m = 4 \<or> m = 6 \<or> m = 9 \<or> m = 11 then 30 else 31)"

definition days_before_year :: "int \<Rightarrow> int" where
  "days_before_year y =
     (let p = y - 1 in p * 365 + p div 4 - p div 100 + p div 400)"

definition days_before_month :: "int \<Rightarrow> int \<Rightarrow> int" where
  "days_before_month y m = (\<Sum>k \<leftarrow> [1..<nat m]. days_in_month y (int k))"

definition ymd2ord :: "int \<Rightarrow> int \<Rightarrow> int \<Rightarrow> int" where
  "ymd2ord y m d = days_before_year y + days_before_month y m + d"

definition strptime_iso :: "string \<Rightarrow> datetime option" where
  "strptime_iso s =
     (if length s = 19 \<and> s ! 4 = CHR ''-'' \<and> s ! 7 = CHR ''-'' \<and> s ! 10 = CHR '' ''
         \<and> s ! 13 = CHR '':'' \<and> s ! 16 = CHR '':''
      then
        (case (digits_val (take 4 s), digits_val (take 2 (drop 5 s)),
               digits_val (take 2 (drop 8 s)), digits_val (take 2 (drop 11 s)),
               digits_val (take 2 (drop 14 s)), digits_val (take 2 (drop 17 s))) of
           (Some y, Some m, Some d, Some hh, Some mm, Some ss) \<Rightarrow>
             (if 1 \<le> y \<and> 1 \<le> m \<and> m \<le> 12 \<and> 1 \<le> d \<and> d \<le> days_in_month y m
                 \<and> hh \<le> 23 \<and> mm \<le> 59 \<and> ss \<le> 59
              then Some (((((ymd2ord y m d - 1) * 24 + hh) * 60 + mm) * 60 + ss) * 10 ^ 6)
              else None)
         | _ \<Rightarrow> None)
      else None)"

section \<open>Pricing engine (pricing\_engine.py)\<close>

definition calculate_occupancy_multiplier :: "rat \<Rightarrow> rat" where
  "calculate_occupancy_multiplier occupancy_ratio =
     (if occupancy_ratio \<ge> 8 / 10 then 15 / 10
      else if occupancy_ratio \<ge> 6 / 10 then 135 / 100
      else if occupancy_ratio \<ge> 4 / 10 then 115 / 100
      else 1)"

text \<open>
  \<open>calculate_time_multiplier\<close> parses outside any \<open>try\<close>: a string that does not parse
  raises \<open>ValueError\<close>.
\<close>

definition calculate_time_multiplier ::
  "(string \<Rightarrow> datetime option) \<Rightarrow> datetime \<Rightarrow> string \<Rightarrow> py_error + rat" where
  "calculate_time_multiplier strptime now departure_time =
     (case strptime departure_time of
        None \<Rightarrow> Inl ValueError
      | Some departure_date \<Rightarrow>
          (let days_until_departure = total_seconds (departure_date - now) / (24 * 3600)
           in Inr (if days_until_departure \<le> 1 then 2
                   else if days_until_departure \<le> 3 then 18 / 10
                   else if days_until_departure \<le> 7 then 15 / 10
                   else if days_until_departure \<le> 14 then 125 / 100
                   else if days_until_departure \<le> 30 then 11 / 10
                   else 1)))"

definition calculate_demand_multiplier :: "string \<Rightarrow> rat" where
  "calculate_demand_multiplier demand_level =
     (let level = lower demand_level
      in if level = ''high'' then 14 / 10
         else if level = ''low'' then 8 / 10
         else 1)"

text \<open>
  The statements of \<open>calculate_dynamic_price\<close> in the source's order: the division (which
  raises \<open>ZeroDivisionError\<close> on \<open>total_seats = 0\<close>) comes before the parse.
\<close>

definition calculate_dynamic_price ::
  "(string \<Rightarrow> datetime option) \<Rightarrow> datetime \<Rightarrow> rat \<Rightarrow> rat \<Rightarrow> int \<Rightarrow> int \<Rightarrow> string \<Rightarrow> string
     \<Rightarrow> py_error + rat" where
  "calculate_dynamic_price strptime now base_price seat_class_multiplier available_seats
       total_seats departure_time demand_level =
     (let price = float_mul base_price seat_class_multiplier
      in if total_seats = 0 then Inl ZeroDivisionError
         else
           (let occupancy_ratio = of_int (total_seats - available_seats) / of_int total_seats;
                occupancy_multiplier = calculate_occupancy_multiplier occupancy_ratio
            in case calculate_time_multiplier strptime now departure_time of
                 Inl e \<Rightarrow> Inl e
               | Inr time_multiplier \<Rightarrow>
                   (let demand_multiplier = calculate_demand_multiplier demand_level;
                        final_price =
                          float_mul
                            (float_mul (float_mul price occupancy_multiplier) time_multiplier)
                            demand_multiplier
                    in Inr (py_round final_price 2))))"

section \<open>Refund policy (utils.py)\<close>

text \<open>The body of the \<open>try\<close> block of \<open>calculate_refund_percentage\<close>.\<close>

definition refund_try :: "(string \<Rightarrow> datetime option) \<Rightarrow> datetime \<Rightarrow> string \<Rightarrow> py_error + int" where
  "refund_try strptime now departure_time =
     (case strptime departure_time of
        None \<Rightarrow> Inl ValueError
      | Some departure \<Rightarrow>
          (let hours_until_departure = total_seconds (departure - now) / 3600
           in Inr (if hours_until_departure > 72 then 100
                   else if hours_until_departure \<ge> 24 then 75
                   else if hours_until_departure \<ge> 2 then 50
                   else 0)))"

text \<open>The bare \<open>except\<close> turns every exception of the body into the result 0.\<close>

definition calculate_refund_percentage ::
  "(string \<Rightarrow> datetime option) \<Rightarrow> datetime \<Rightarrow> string \<Rightarrow> int" where
  "calculate_refund_percentage strptime now departure_time =
     (case refund_try strptime now departure_time of
        Inr p \<Rightarrow> p
      | Inl e \<Rightarrow> 0)"

section \<open>Request model (models.py)\<close>

record PassengerInfo =
  first_name :: string
  last_name :: string
  email :: "string option"
  phone :: "string option"

text \<open>
  A \<open>BookingRequest\<close> object as the endpoint receives it. The validator of \<open>passengers\<close>
  has already replaced \<open>None\<close> by the empty list.
\<close>

record BookingRequest =
  rq_flight_id :: int
  rq_user_id :: int
  rq_seat_class :: string
  seats_count :: int
  payment_method :: string
  passengers :: "PassengerInfo list"

text \<open>
  The objects the validators of \<open>BookingRequest\<close> let through: \<open>seats_count\<close> with
  \<open>ge=1, le=9\<close>, \<open>validate_seat_class\<close>, and \<open>validate_passengers\<close> (no passengers, or as
  many as seats).
\<close>

definition BookingRequest_valid :: "BookingRequest \<Rightarrow> bool" where
  "BookingRequest_valid booking =
     (1 \<le> seats_count booking \<and> seats_count booking \<le> 9
      \<and> rq_seat_class booking \<in> set [''Economy'', ''Business'', ''First'']
      \<and> (passengers booking = []
           \<or> int (length (passengers booking)) = seats_count booking))"

section \<open>The store\<close>

text \<open>
  Modelled from the spec: the schema (db/db\_schema.sql) is not among the sources. Following
  section 3 of the spec and the queries of backend.py, \<open>Flights\<close> has one row per
  \<open>flight_id\<close> and \<open>Seats\<close> one row per (\<open>flight_id\<close>, \<open>seat_class\<close>); the other tables are
  lists of rows in insertion order. Only the columns that \<open>create_booking\<close> and
  \<open>cancel_booking\<close> read or write are kept.
\<close>

record Flights_row =
  base_price :: rat
  total_seats :: int
  departure_time :: string

record Seats_row =
  initial_inventory :: int
  available_seats :: int
  price_multiplier :: rat

record Bookings_row =
  booking_id :: int
  flight_id :: int
  user_id :: int
  seat_class :: string
  seats_booked :: int
  final_price :: rat
  booking_date :: string
  status :: string
  pnr :: string

record Passengers_row =
  p_booking_id :: int
  p_first_name :: string
  p_last_name :: string
  p_email :: "string option"
  p_phone :: "string option"

record Transactions_row =
  t_booking_id :: int
  t_amount :: rat
  t_payment_method :: string
  t_status :: string
  t_transaction_date :: string

text \<open>The two formatted strings written to \<open>BookingHistory.details\<close>, unformatted.\<close>

datatype history_details = Booked_seats int string | Refund_amount int rat

record BookingHistory_row =
  h_booking_id :: int
  h_action :: string
  h_details :: history_details
  h_performed_at :: string

record store =
  Flights :: "int \<rightharpoonup> Flights_row"
  Seats :: "int \<times> string \<rightharpoonup> Seats_row"
  Bookings :: "Bookings_row list"
  Passengers :: "Passengers_row list"
  Transactions :: "Transactions_row list"
  BookingHistory :: "BookingHistory_row list"

text \<open>
  \<open>cursor.lastrowid\<close> after the insert into \<open>Bookings\<close>: SQLite gives a new row the
  largest key of the table plus one, and 1 in an empty table.
\<close>

definition lastrowid :: "Bookings_row list \<Rightarrow> int" where
  "lastrowid bs = (if bs = [] then 1 else Max (set (map booking_id bs)) + 1)"

section \<open>Endpoints (backend.py)\<close>

text \<open>The \<open>detail\<close> of an \<open>HTTPException\<close>, with the values its message is formatted from.\<close>

datatype detail =
    Flight_not_found
  | Seat_class_not_available string
  | Only_seats_available int int
  | Internal_server_error py_error
  | Booking_not_found
  | Flight_not_found_for_booking
  | Seat_configuration_not_found

datatype HTTPException = HTTPException int detail

record PricingSummary =
  ps_price_per_seat :: rat
  ps_seats_booked :: int
  ps_total_price :: rat

record BookingResponse =
  br_success :: bool
  br_message :: string
  br_booking :: Bookings_row
  br_passengers :: "PassengerInfo list"
  br_pricing_summary :: PricingSummary

text \<open>
  \<open>create_booking\<close>. \<open>booking_timestamp\<close> is the formatted clock value of the first line,
  \<open>now\<close> the clock value the pricing engine reads, \<open>new_pnr\<close> the result of
  \<open>generate_pnr()\<close>. Every \<open>raise\<close> is followed by \<open>conn.rollback()\<close>, so an error is
  returned with the store the call started from; an exception of the pricing engine is
  caught by \<open>except Exception\<close> and becomes status 500.
\<close>

definition create_booking ::
  "(string \<Rightarrow> datetime option) \<Rightarrow> datetime \<Rightarrow> string \<Rightarrow> string \<Rightarrow> BookingRequest \<Rightarrow> store
     \<Rightarrow> (HTTPException + BookingResponse) \<times> store" where
  "create_booking strptime now booking_timestamp new_pnr booking st =
     (case Flights st (rq_flight_id booking) of
        None \<Rightarrow> (Inl (HTTPException 404 Flight_not_found), st)
      | Some flight \<Rightarrow>
     (case Seats st (rq_flight_id booking, rq_seat_class booking) of
        None \<Rightarrow> (Inl (HTTPException 404 (Seat_class_not_available (rq_seat_class booking))), st)
      | Some seat_info \<Rightarrow>
     (if available_seats seat_info < seats_count booking
      then (Inl (HTTPException 409
                   (Only_seats_available (available_seats seat_info) (seats_count booking))), st)
      else
     (case calculate_dynamic_price strptime now (base_price flight) (price_multiplier seat_info)
             (available_seats seat_info) (total_seats flight) (departure_time flight) ''medium'' of
        Inl e \<Rightarrow> (Inl (HTTPException 500 (Internal_server_error e)), st)
      | Inr price_per_seat \<Rightarrow>
          (let total_price = py_round (float_mul price_per_seat (of_int (seats_count booking))) 2;
               new_id = lastrowid (Bookings st);
               row = \<lparr>booking_id = new_id, flight_id = rq_flight_id booking,
                       user_id = rq_user_id booking, seat_class = rq_seat_class booking,
                       seats_booked = seats_count booking, final_price = total_price,
                       booking_date = booking_timestamp, status = ''Confirmed'',
                       pnr = new_pnr\<rparr>;
               st1 = st\<lparr>Bookings := Bookings st @ [row]\<rparr>;
               st2 = st1\<lparr>Passengers := Passengers st1 @
                       map (\<lambda>p. \<lparr>p_booking_id = new_id, p_first_name = first_name p,
                                   p_last_name = last_name p, p_email = email p,
                                   p_phone = phone p\<rparr>) (passengers booking)\<rparr>;
               st3 = st2\<lparr>Seats := (Seats st2)
                       ((rq_flight_id booking, rq_seat_class booking) \<mapsto>
                          seat_info\<lparr>available_seats :=
                            available_seats seat_info - seats_count booking\<rparr>)\<rparr>;
               st4 = st3\<lparr>Transactions := Transactions st3 @
                       [\<lparr>t_booking_id = new_id, t_amount = total_price,
                         t_payment_method = payment_method booking, t_status = ''Completed'',
                         t_transaction_date = booking_timestamp\<rparr>]\<rparr>;
               st5 = st4\<lparr>BookingHistory := BookingHistory st4 @
                       [\<lparr>h_booking_id = new_id, h_action = ''CREATED'',
                         h_details = Booked_seats (seats_count booking) (rq_seat_class booking),
                         h_performed_at = booking_timestamp\<rparr>]\<rparr>
           in (Inr \<lparr>br_success = True, br_message = ''Booking created successfully'',
                     br_booking = row,
                     br_passengers = passengers booking,
                     br_pricing_summary =
                       \<lparr>ps_price_per_seat = price_per_seat,
                        ps_seats_booked = seats_count booking,
                        ps_total_price = total_price\<rparr>\<rparr>, st5))))))"

record CancelResponse =
  cn_success :: bool
  cn_booking_id :: int
  cn_status :: string
  cn_refund_percentage :: int
  cn_refund_amount :: rat

text \<open>
  \<open>cancel_booking\<close>. \<open>cancellation_time\<close> is the formatted clock value of the first line,
  \<open>now\<close> the clock value \<open>calculate_refund_percentage\<close> reads. The \<open>SELECT\<close> by
  \<open>booking_id\<close> takes the first matching row, the \<open>UPDATE\<close> changes every matching row.
\<close>

definition cancel_booking ::
  "(string \<Rightarrow> datetime option) \<Rightarrow> datetime \<Rightarrow> string \<Rightarrow> int \<Rightarrow> store
     \<Rightarrow> (HTTPException + CancelResponse) \<times> store" where
  "cancel_booking strptime now cancellation_time bid st =
     (case find (\<lambda>b. booking_id b = bid) (Bookings st) of
        None \<Rightarrow> (Inl (HTTPException 404 Booking_not_found), st)
      | Some booking \<Rightarrow>
     (if status booking = ''Cancelled''
      then (Inr \<lparr>cn_success = True, cn_booking_id = bid, cn_status = ''Cancelled'',
                 cn_refund_percentage = 0, cn_refund_amount = 0\<rparr>, st)
      else
     (case Flights st (flight_id booking) of
        None \<Rightarrow> (Inl (HTTPException 404 Flight_not_found_for_booking), st)
      | Some flight \<Rightarrow>
          (let refund_percentage =
                 calculate_refund_percentage strptime now (departure_time flight);
               refund_amount =
                 py_round
                   (float_div (float_mul (final_price booking) (of_int refund_percentage))
                      100) 2
           in case Seats st (flight_id booking, seat_class booking) of
                None \<Rightarrow> (Inl (HTTPException 404 Seat_configuration_not_found), st)
              | Some seat_row \<Rightarrow>
                  (let new_available =
                         (if available_seats seat_row + seats_booked booking
                               > initial_inventory seat_row
                          then initial_inventory seat_row
                          else available_seats seat_row + seats_booked booking);
                       st1 = st\<lparr>Bookings :=
                               map (\<lambda>b. if booking_id b = bid
                                         then b\<lparr>status := ''Cancelled''\<rparr> else b)
                                 (Bookings st)\<rparr>;
                       st2 = st1\<lparr>Seats := (Seats st1)
                               ((flight_id booking, seat_class booking) \<mapsto>
                                  seat_row\<lparr>available_seats := new_available\<rparr>)\<rparr>;
                       st3 = (if refund_amount > 0
                              then st2\<lparr>Transactions := Transactions st2 @
                                     [\<lparr>t_booking_id = bid, t_amount = - refund_amount,
                                       t_payment_method = ''REFUND'', t_status = ''Completed'',
                                       t_transaction_date = cancellation_time\<rparr>]\<rparr>
                              else st2);
                       st4 = st3\<lparr>BookingHistory := BookingHistory st3 @
                               [\<lparr>h_booking_id = bid, h_action = ''CANCELLED'',
                                 h_details = Refund_amount refund_percentage refund_amount,
                                 h_performed_at = cancellation_time\<rparr>]\<rparr>
                   in (Inr \<lparr>cn_success = True, cn_booking_id = bid,
                             cn_status = ''Cancelled'',
                             cn_refund_percentage = refund_percentage,
                             cn_refund_amount = refund_amount\<rparr>, st4))))))"

section \<open>Sequences of calls\<close>

text \<open>
  A call of one of the two endpoints, with the values the call reads from its environment
  (clock value, formatted timestamp, generated PNR). The framework builds the
  \<open>BookingRequest\<close> before \<open>create_booking\<close> runs: a request that the validators of
  models.py reject is answered without the endpoint being entered, so the store stays as it
  is.
\<close>

datatype operation =
    CreateBooking datetime string string BookingRequest
  | CancelBooking datetime string int

fun apply_operation :: "(string \<Rightarrow> datetime option) \<Rightarrow> operation \<Rightarrow> store \<Rightarrow> store" where
  "apply_operation strptime (CreateBooking now stamp code booking) st =
     (if BookingRequest_valid booking
      then snd (create_booking strptime now stamp code booking st)
      else st)"
| "apply_operation strptime (CancelBooking now stamp bid) st =
     snd (cancel_booking strptime now stamp bid st)"

definition apply_operations ::
  "(string \<Rightarrow> datetime option) \<Rightarrow> operation list \<Rightarrow> store \<Rightarrow> store" where
  "apply_operations strptime ops st = fold (apply_operation strptime) ops st"

text \<open>
  A run of bookings that all succeed: \<open>None\<close> as soon as one call returns an error.
\<close>

fun create_bookings ::
  "(string \<Rightarrow> datetime option) \<Rightarrow> (datetime \<times> string \<times> string \<times> BookingRequest) list \<Rightarrow> store
     \<Rightarrow> store option" where
  "create_bookings strptime [] st = Some st"
| "create_bookings strptime ((now, stamp, code, booking) # calls) st =
     (case create_booking strptime now stamp code booking st of
        (Inl e, st') \<Rightarrow> None
      | (Inr r, st') \<Rightarrow> create_bookings strptime calls st')"

text \<open>The seats that a list of booking calls asks for on one inventory row.\<close>

fun booked_seats ::
  "int \<times> string \<Rightarrow> (datetime \<times> string \<times> string \<times> BookingRequest) list \<Rightarrow> int" where
  "booked_seats key [] = 0"
| "booked_seats key ((now, stamp, code, booking) # calls) =
     (if (rq_flight_id booking, rq_seat_class booking) = key then seats_count booking else 0)
     + booked_seats key calls"

text \<open>The inventory invariant of section 3 of the spec, on every row of \<open>Seats\<close>.\<close>

definition inventory_in_bounds :: "store \<Rightarrow> bool" where
  "inventory_in_bounds st =
     (\<forall>key row. Seats st key = Some row \<longrightarrow>
        0 \<le> available_seats row \<and> available_seats row \<le> initial_inventory row)"

text \<open>
  An initial store: every inventory row is full (and its capacity is not negative), and a
  booking already in the table has no negative seat count.
\<close>

definition initial_store :: "store \<Rightarrow> bool" where
  "initial_store st =
     ((\<forall>key row. Seats st key = Some row \<longrightarrow>
         available_seats row = initial_inventory row \<and> 0 \<le> initial_inventory row)
      \<and> (\<forall>b \<in> set (Bookings st). 0 \<le> seats_booked b))"

definition bookings_nonneg :: "store \<Rightarrow> bool" where
  "bookings_nonneg st = (\<forall>b \<in> set (Bookings st). 0 \<le> seats_booked b)"

section \<open>Example data\<close>

text \<open>
  One flight of 100 seats with base price 100, and its Economy inventory of 20 seats at
  multiplier 1. The departure time, the seats still available and the bookings table vary
  from example to example.
\<close>

definition example_store :: "string \<Rightarrow> int \<Rightarrow> Bookings_row list \<Rightarrow> store" where
  "example_store dep avail bs =
     \<lparr>Flights = [1 \<mapsto> \<lparr>base_price = 100, total_seats = 100, departure_time = dep\<rparr>],
      Seats = [(1, ''Economy'') \<mapsto>
                 \<lparr>initial_inventory = 20, available_seats = avail, price_multiplier = 1\<rparr>],
      Bookings = bs, Passengers = [], Transactions = [], BookingHistory = []\<rparr>"

text \<open>
  The same flight at base price 50, departing on 2030-01-10, with 50 of the 60 Economy
  seats left: half of the 100 seats of the flight count as sold.
\<close>

definition half_sold_store :: store where
  "half_sold_store =
     \<lparr>Flights = [1 \<mapsto> \<lparr>base_price = 50, total_seats = 100,
                       departure_time = ''2030-01-10 00:00:00''\<rparr>],
      Seats = [(1, ''Economy'') \<mapsto>
                 \<lparr>initial_inventory = 60, available_seats = 50, price_multiplier = 1\<rparr>],
      Bookings = [], Passengers = [], Transactions = [], BookingHistory = []\<rparr>"

definition example_booking :: "string \<Rightarrow> Bookings_row" where
  "example_booking s =
     \<lparr>booking_id = 1, flight_id = 1, user_id = 7, seat_class = ''Economy'',
      seats_booked = 2, final_price = 600, booking_date = ''2029-12-31 09:30:00'',
      status = s, pnr = ''K7XQ2M''\<rparr>"

definition example_request :: "int \<Rightarrow> BookingRequest" where
  "example_request n =
     \<lparr>rq_flight_id = 1, rq_user_id = 7, rq_seat_class = ''Economy'', seats_count = n,
      payment_method = ''Credit Card'', passengers = []\<rparr>"

section \<open>Facts about the pricing engine\<close>

lemma strptime_iso_midnight:
  "strptime_iso ''2030-01-01 00:00:00'' = Some 64029052800000000"
  by code_simp

lemma strptime_iso_noon:
  "strptime_iso ''2030-01-01 12:00:00'' = Some 64029096000000000"
  by code_simp

lemma occupancy_multiplier_mono:
  "r1 \<le> r2 \<Longrightarrow> calculate_occupancy_multiplier r1 \<le> calculate_occupancy_multiplier r2"
  by (simp add: calculate_occupancy_multiplier_def)

text \<open>
  Claim C8. The occupancy multiplier is a step function of the occupancy ratio with exactly
  the values 1.5 (ratio at least 0.8), 1.35 (at least 0.6, below 0.8), 1.15 (at least 0.4,
  below 0.6) and 1.0 (below 0.4), and it never decreases when the ratio grows.
\<close>

theorem occupancy_multiplier_steps:
  "(\<forall>r. 8 / 10 \<le> r \<longrightarrow> calculate_occupancy_multiplier r = 15 / 10)
   \<and> (\<forall>r. 6 / 10 \<le> r \<and> r < 8 / 10 \<longrightarrow> calculate_occupancy_multiplier r = 135 / 100)
   \<and> (\<forall>r. 4 / 10 \<le> r \<and> r < 6 / 10 \<longrightarrow> calculate_occupancy_multiplier r = 115 / 100)
   \<and> (\<forall>r. r < 4 / 10 \<longrightarrow> calculate_occupancy_multiplier r = 1)
   \<and> (\<forall>r1 r2. r1 \<le> r2 \<longrightarrow>
          calculate_occupancy_multiplier r1 \<le> calculate_occupancy_multiplier r2)"
proof (intro conjI allI impI)
  fix r1 r2 :: rat
  assume "r1 \<le> r2"
  then show "calculate_occupancy_multiplier r1 \<le> calculate_occupancy_multiplier r2"
    by (rule occupancy_multiplier_mono)
qed (simp_all add: calculate_occupancy_multiplier_def)

theorem occupancy_multiplier_steps_witness:
  "(8 / 10 \<le> (9 / 10 :: rat) \<and> calculate_occupancy_multiplier (9 / 10) = 15 / 10)
   \<and> (6 / 10 \<le> (7 / 10 :: rat) \<and> (7 / 10 :: rat) < 8 / 10
        \<and> calculate_occupancy_multiplier (7 / 10) = 135 / 100)
   \<and> (4 / 10 \<le> (1 / 2 :: rat) \<and> (1 / 2 :: rat) < 6 / 10
        \<and> calculate_occupancy_multiplier (1 / 2) = 115 / 100)
   \<and> ((1 / 10 :: rat) < 4 / 10 \<and> calculate_occupancy_multiplier (1 / 10) = 1)
   \<and> ((1 / 10 :: rat) \<le> 9 / 10
        \<and> calculate_occupancy_multiplier (1 / 10) \<le> calculate_occupancy_multiplier (9 / 10))"
proof -
  note s = occupancy_multiplier_steps
  have a: "calculate_occupancy_multiplier (9 / 10) = 15 / 10"
    using s [THEN conjunct1, rule_format, of "9 / 10"] by simp
  have b: "calculate_occupancy_multiplier (7 / 10) = 135 / 100"
    using s [THEN conjunct2, THEN conjunct1, rule_format, of "7 / 10"] by simp
  have c: "calculate_occupancy_multiplier (1 / 2) = 115 / 100"
    using s [THEN conjunct2, THEN conjunct2, THEN conjunct1, rule_format, of "1 / 2"] by simp
  have d: "calculate_occupancy_multiplier (1 / 10) = 1"
    using s [THEN conjunct2, THEN conjunct2, THEN conjunct2, THEN conjunct1, rule_format,
        of "1 / 10"] by simp
  have e: "calculate_occupancy_multiplier (1 / 10) \<le> calculate_occupancy_multiplier (9 / 10)"
    using s [THEN conjunct2, THEN conjunct2, THEN conjunct2, THEN conjunct2, rule_format,
        of "1 / 10" "9 / 10"] by simp
  from a b c d e show ?thesis by simp
qed

lemma time_multiplier_12h:
  "strptime dep = Some d \<Longrightarrow> d - now = 12 * 3600 * 10 ^ 6 \<Longrightarrow>
   calculate_time_multiplier strptime now dep = Inr 2"
  by (simp add: calculate_time_multiplier_def total_seconds_def)

lemma time_multiplier_9d:
  "strptime dep = Some d \<Longrightarrow> d - now = 9 * 24 * 3600 * 10 ^ 6 \<Longrightarrow>
   calculate_time_multiplier strptime now dep = Inr (125 / 100)"
  by (simp add: calculate_time_multiplier_def total_seconds_def)

lemma time_multiplier_parsed:
  "strptime dep = Some d \<Longrightarrow> \<exists>tm. calculate_time_multiplier strptime now dep = Inr tm"
  by (simp add: calculate_time_multiplier_def Let_def)

lemma strptime_iso_9d: "strptime_iso ''2030-01-10 00:00:00'' = Some 64029830400000000"
  by code_simp

subsection \<open>Binary64 arithmetic on examples\<close>

text \<open>
  The binary values behind the decimals: 1.15 is read as
  2589569785738035 / 2251799813685248, a little below 1.15, so that 50 * 1.15 * 1.25 is
  a little below 71.875 and rounds to 71.87.
\<close>

lemma fl_examples:
  shows "fl (115 / 100) = 2589569785738035 / 2251799813685248"
    and "fl (1 / 10) = 3602879701896397 / 36028797018963968"
    and "fl 300 = 300"
    and "fl (7187 / 100) = 632175205506089 / 8796093022208"
  by code_simp+

lemma float_mul_examples:
  shows "float_mul 50 (115 / 100) = 8092405580431359 / 140737488355328"
    and "float_mul (8092405580431359 / 140737488355328) (125 / 100)
          = 5057753487769599 / 70368744177664"
    and "float_mul (12006 / 100) 75 = 18009 / 2"
    and "float_div (18009 / 2) 100 = 6336353569477755 / 70368744177664"
  by code_simp+

lemma py_round_examples:
  shows "py_round (2675 / 1000) 2 = 267 / 100"
    and "py_round (1 / 8) 2 = 12 / 100"
    and "py_round (3 / 8) 2 = 38 / 100"
    and "py_round (- 1 / 8) 2 = - 12 / 100"
    and "py_round (5057753487769599 / 70368744177664) 2 = 7187 / 100"
    and "py_round (6336353569477755 / 70368744177664) 2 = 9005 / 100"
  by code_simp+

lemma py_round_300: "py_round 300 2 = 300"
  by code_simp

lemma py_round_600: "py_round 600 2 = 600"
  by code_simp

lemma price_300:
  "py_round (float_mul (float_mul (float_mul (float_mul 100 1) (15 / 10)) 2) 1) 2 = 300"
  by code_simp

lemma price_71_87:
  "py_round (float_mul (float_mul (float_mul (float_mul 50 1) (115 / 100)) (125 / 100)) 1) 2
     = 7187 / 100"
  by code_simp

lemma total_143_74: "py_round (float_mul (7187 / 100) 2) 2 = 14374 / 100"
  by code_simp

lemma total_600: "py_round (float_mul 300 2) 2 = 600"
  by code_simp

lemma refund_300: "py_round (float_div (float_mul 600 50) 100) 2 = 300"
  by code_simp

lemma refund_90_05: "py_round (float_div (float_mul (12006 / 100) 75) 100) 2 = 9005 / 100"
  by code_simp

lemma float_mul_zero: "float_mul x 0 = 0"
  by (simp add: float_mul_def fl_def)

lemma float_div_zero: "float_div 0 y = 0"
  by (simp add: float_div_def fl_def)

lemma py_round_zero: "py_round 0 n = 0"
  by (simp add: py_round_def fl_def round_half_even_def)

subsection \<open>The price\<close>

lemma dynamic_price_product:
  "ts \<noteq> 0 \<Longrightarrow>
   calculate_time_multiplier strptime now dep = Inr tm \<Longrightarrow>
   calculate_dynamic_price strptime now bp scm av ts dep dl =
        Inr (py_round
               (float_mul
                  (float_mul
                     (float_mul (float_mul bp scm)
                        (calculate_occupancy_multiplier (of_int (ts - av) / of_int ts)))
                     tm)
                  (calculate_demand_multiplier dl)) 2)"
  by (simp add: calculate_dynamic_price_def Let_def)

lemma demand_multiplier_medium: "calculate_demand_multiplier ''medium'' = 1"
  by (simp add: calculate_demand_multiplier_def lower_def lower_char_def)

lemma dynamic_price_example:
  assumes "strptime dep = Some d" and "d - now = 12 * 3600 * 10 ^ 6"
  shows "calculate_dynamic_price strptime now 100 1 20 100 dep ''medium'' = Inr 300"
proof -
  have tm: "calculate_time_multiplier strptime now dep = Inr 2"
    using assms by (rule time_multiplier_12h)
  have om: "calculate_occupancy_multiplier (of_int (100 - 20) / of_int 100) = 15 / 10"
    by (simp add: calculate_occupancy_multiplier_def)
  have "calculate_dynamic_price strptime now 100 1 20 100 dep ''medium''
      = Inr (py_round
          (float_mul
             (float_mul
                (float_mul (float_mul 100 1)
                   (calculate_occupancy_multiplier (of_int (100 - 20) / of_int 100)))
                2)
             (calculate_demand_multiplier ''medium'')) 2)"
    by (rule dynamic_price_product [OF _ tm]) simp
  also have "\<dots> = Inr 300"
    by (simp only: om demand_multiplier_medium price_300)
  finally show ?thesis .
qed

lemma dynamic_price_example_9d:
  assumes "strptime dep = Some d" and "d - now = 9 * 24 * 3600 * 10 ^ 6"
  shows "calculate_dynamic_price strptime now 50 1 50 100 dep ''medium'' = Inr (7187 / 100)"
proof -
  have tm: "calculate_time_multiplier strptime now dep = Inr (125 / 100)"
    using assms by (rule time_multiplier_9d)
  have om: "calculate_occupancy_multiplier (of_int (100 - 50) / of_int 100) = 115 / 100"
    by (simp add: calculate_occupancy_multiplier_def)
  have "calculate_dynamic_price strptime now 50 1 50 100 dep ''medium''
      = Inr (py_round
          (float_mul
             (float_mul
                (float_mul (float_mul 50 1)
                   (calculate_occupancy_multiplier (of_int (100 - 50) / of_int 100)))
                (125 / 100))
             (calculate_demand_multiplier ''medium'')) 2)"
    by (rule dynamic_price_product [OF _ tm]) simp
  also have "\<dots> = Inr (7187 / 100)"
    by (simp only: om demand_multiplier_medium price_71_87)
  finally show ?thesis .
qed

text \<open>
  Claim C3, as amended. With \<open>total_seats > 0\<close> and a departure time that parses, the
  pricing function returns the product of base price, seat class multiplier, occupancy
  multiplier, time multiplier and demand multiplier, multiplied as floats from left to
  right and rounded to two decimals. With base price 100, seat class multiplier 1.0, 100
  seats of which 20 are available, a departure 12 hours after the clock value and demand
  \<open>medium\<close>, the result is 300. (As stated, the claim holds for every input with
  \<open>total_seats > 0\<close>; the counterexample after the witness refutes that.)
\<close>

theorem calculate_dynamic_price_formula:
  "(\<forall>strptime now base_price seat_class_multiplier available_seats total_seats
       departure_time demand_level d.
      total_seats > 0 \<and> strptime departure_time = Some d \<longrightarrow>
      (\<exists>time_multiplier.
         calculate_time_multiplier strptime now departure_time = Inr time_multiplier
         \<and> calculate_dynamic_price strptime now base_price seat_class_multiplier
               available_seats total_seats departure_time demand_level =
             Inr (py_round
                    (float_mul
                       (float_mul
                          (float_mul (float_mul base_price seat_class_multiplier)
                             (calculate_occupancy_multiplier
                                (of_int (total_seats - available_seats)
                                 / of_int total_seats)))
                          time_multiplier)
                       (calculate_demand_multiplier demand_level)) 2)))
   \<and> (\<forall>strptime now departure_time d.
        strptime departure_time = Some d \<and> d - now = 12 * 3600 * 10 ^ 6 \<longrightarrow>
        calculate_dynamic_price strptime now 100 1 20 100 departure_time ''medium''
          = Inr 300)"
proof (intro conjI allI impI; elim conjE)
  fix strptime :: "string \<Rightarrow> datetime option" and now bp scm av and ts :: int and dep dl d
  assume ts: "0 < ts" and p: "strptime dep = Some d"
  obtain tm where tm: "calculate_time_multiplier strptime now dep = Inr tm"
    using time_multiplier_parsed [where strptime = strptime, OF p] by blast
  from ts have "ts \<noteq> 0" by simp
  from dynamic_price_product [OF this tm] tm
  show "\<exists>time_multiplier.
         calculate_time_multiplier strptime now dep = Inr time_multiplier
         \<and> calculate_dynamic_price strptime now bp scm av ts dep dl =
             Inr (py_round
                    (float_mul
                       (float_mul
                          (float_mul (float_mul bp scm)
                             (calculate_occupancy_multiplier (of_int (ts - av) / of_int ts)))
                          time_multiplier)
                       (calculate_demand_multiplier dl)) 2)"
    by blast
next
  fix strptime :: "string \<Rightarrow> datetime option" and now dep d
  assume "strptime dep = Some d" "d - now = 12 * 3600 * 10 ^ 6"
  then show "calculate_dynamic_price strptime now 100 1 20 100 dep ''medium'' = Inr 300"
    by (rule dynamic_price_example)
qed

theorem calculate_dynamic_price_formula_witness:
  "(0 :: int) < 100
   \<and> strptime_iso ''2030-01-10 00:00:00'' = Some 64029830400000000
   \<and> calculate_time_multiplier strptime_iso 64029052800000000 ''2030-01-10 00:00:00''
       = Inr (125 / 100)
   \<and> calculate_dynamic_price strptime_iso 64029052800000000 50 1 50 100
       ''2030-01-10 00:00:00'' ''medium''
       = Inr (py_round
           (float_mul (float_mul (float_mul (float_mul 50 1) (115 / 100)) (125 / 100)) 1) 2)
   \<and> py_round
         (float_mul (float_mul (float_mul (float_mul 50 1) (115 / 100)) (125 / 100)) 1) 2
       = 7187 / 100
   \<and> strptime_iso ''2030-01-01 12:00:00'' = Some 64029096000000000
   \<and> calculate_dynamic_price strptime_iso 64029052800000000 100 1 20 100
       ''2030-01-01 12:00:00'' ''medium'' = Inr 300"
proof -
  note f = calculate_dynamic_price_formula
  have tm: "calculate_time_multiplier strptime_iso 64029052800000000 ''2030-01-10 00:00:00''
      = Inr (125 / 100)"
    by (rule time_multiplier_9d [where strptime = strptime_iso, OF strptime_iso_9d]) simp
  have dm: "calculate_demand_multiplier ''medium'' = 1"
    by (rule demand_multiplier_medium)
  have om: "calculate_occupancy_multiplier (of_int (100 - 50) / of_int 100) = 115 / 100"
    by (simp add: calculate_occupancy_multiplier_def)
  from f [THEN conjunct1, rule_format, where strptime = strptime_iso
      and now = 64029052800000000 and base_price = 50 and seat_class_multiplier = 1
      and available_seats = 50 and total_seats = 100
      and departure_time = "''2030-01-10 00:00:00''" and demand_level = "''medium''"
      and d = 64029830400000000]
  obtain t where
    t: "calculate_time_multiplier strptime_iso 64029052800000000 ''2030-01-10 00:00:00''
        = Inr t"
    and p: "calculate_dynamic_price strptime_iso 64029052800000000 50 1 50 100
        ''2030-01-10 00:00:00'' ''medium''
      = Inr (py_round
          (float_mul
             (float_mul
                (float_mul (float_mul 50 1)
                   (calculate_occupancy_multiplier (of_int (100 - 50) / of_int 100)))
                t)
             (calculate_demand_multiplier ''medium'')) 2)"
    using strptime_iso_9d by auto
  from t tm have "t = 125 / 100" by simp
  with p have a: "calculate_dynamic_price strptime_iso 64029052800000000 50 1 50 100
       ''2030-01-10 00:00:00'' ''medium''
       = Inr (py_round
           (float_mul (float_mul (float_mul (float_mul 50 1) (115 / 100)) (125 / 100)) 1) 2)"
    by (simp only: om dm)
  have b: "calculate_dynamic_price strptime_iso 64029052800000000 100 1 20 100
       ''2030-01-01 12:00:00'' ''medium'' = Inr 300"
    using f [THEN conjunct2, rule_format, of strptime_iso "''2030-01-01 12:00:00''"
        64029096000000000 64029052800000000] strptime_iso_noon by simp
  from tm a b strptime_iso_noon strptime_iso_9d price_71_87 show ?thesis by simp
qed

theorem calculate_dynamic_price_unparsed_counterexample:
  "(0 :: int) < 100
   \<and> strptime_iso ''31/12/2029 18:00'' = None
   \<and> calculate_dynamic_price strptime_iso 64029052800000000 100 1 20 100
        ''31/12/2029 18:00'' ''medium'' = Inl ValueError"
  by (simp add: calculate_dynamic_price_def calculate_time_multiplier_def strptime_iso_def
      Let_def)

lemma dynamic_price_zero_seats:
  "calculate_dynamic_price strptime now bp scm av 0 dep dl = Inl ZeroDivisionError"
  by (simp add: calculate_dynamic_price_def)

lemma dynamic_price_parsed:
  "ts \<noteq> 0 \<Longrightarrow> strptime dep = Some d \<Longrightarrow>
   \<exists>p. calculate_dynamic_price strptime now bp scm av ts dep dl = Inr p"
  by (simp add: calculate_dynamic_price_def calculate_time_multiplier_def Let_def)

lemma dynamic_price_unparsed:
  "ts \<noteq> 0 \<Longrightarrow> strptime dep = None \<Longrightarrow>
   calculate_dynamic_price strptime now bp scm av ts dep dl = Inl ValueError"
  by (simp add: calculate_dynamic_price_def calculate_time_multiplier_def Let_def)

lemma strptime_iso_tomorrow: "strptime_iso ''tomorrow'' = None"
  by (simp add: strptime_iso_def)

text \<open>
  Claim C9, as amended. With \<open>total_seats = 0\<close> the pricing function fails with
  \<open>ZeroDivisionError\<close>, whatever the other arguments. With \<open>total_seats > 0\<close> the division
  never fails, and the function returns a price exactly when the departure time parses;
  for a departure time that does not parse it fails with \<open>ValueError\<close>. (As stated, the
  claim has the function total under \<open>total_seats > 0\<close> alone; the counterexample
  after the witness refutes that.)
\<close>

theorem pricing_failure_modes:
  "(\<forall>strptime now bp scm av dep dl.
      calculate_dynamic_price strptime now bp scm av 0 dep dl = Inl ZeroDivisionError)
   \<and> (\<forall>strptime now bp scm av ts dep dl.
        0 < ts \<longrightarrow>
        calculate_dynamic_price strptime now bp scm av ts dep dl \<noteq> Inl ZeroDivisionError)
   \<and> (\<forall>strptime now bp scm av ts dep dl.
        0 < ts \<and> strptime dep \<noteq> None \<longrightarrow>
        (\<exists>p. calculate_dynamic_price strptime now bp scm av ts dep dl = Inr p))
   \<and> (\<forall>strptime now bp scm av ts dep dl.
        0 < ts \<and> strptime dep = None \<longrightarrow>
        calculate_dynamic_price strptime now bp scm av ts dep dl = Inl ValueError)"
proof (intro conjI allI impI)
  fix strptime :: "string \<Rightarrow> datetime option" and now bp scm av ts dep dl
  assume "0 < (ts :: int)"
  then have ts: "ts \<noteq> 0" by simp
  show "calculate_dynamic_price strptime now bp scm av ts dep dl \<noteq> Inl ZeroDivisionError"
  proof (cases "strptime dep")
    case None
    then show ?thesis by (simp add: dynamic_price_unparsed ts)
  next
    case (Some d)
    then obtain p where "calculate_dynamic_price strptime now bp scm av ts dep dl = Inr p"
      using dynamic_price_parsed ts by blast
    then show ?thesis by simp
  qed
next
  fix strptime :: "string \<Rightarrow> datetime option" and now bp scm av ts dep dl
  assume "0 < (ts :: int) \<and> strptime dep \<noteq> None"
  then obtain d where "ts \<noteq> 0" and "strptime dep = Some d" by auto
  then show "\<exists>p. calculate_dynamic_price strptime now bp scm av ts dep dl = Inr p"
    by (rule dynamic_price_parsed)
next
  fix strptime :: "string \<Rightarrow> datetime option" and now bp scm av ts dep dl
  assume "0 < (ts :: int) \<and> strptime dep = None"
  then show "calculate_dynamic_price strptime now bp scm av ts dep dl = Inl ValueError"
    by (simp add: dynamic_price_unparsed)
qed (rule dynamic_price_zero_seats)

theorem pricing_failure_modes_witness:
  "calculate_dynamic_price strptime_iso 64029052800000000 100 1 0 0
       ''2030-01-01 12:00:00'' ''medium'' = Inl ZeroDivisionError
   \<and> ((0 :: int) < 100
        \<and> calculate_dynamic_price strptime_iso 64029052800000000 100 1 20 100
            ''2030-01-01 12:00:00'' ''medium'' \<noteq> Inl ZeroDivisionError)
   \<and> ((0 :: int) < 100 \<and> strptime_iso ''2030-01-01 12:00:00'' \<noteq> None
        \<and> (\<exists>p. calculate_dynamic_price strptime_iso 64029052800000000 100 1 20 100
            ''2030-01-01 12:00:00'' ''medium'' = Inr p))
   \<and> ((0 :: int) < 100 \<and> strptime_iso ''next week'' = None
        \<and> calculate_dynamic_price strptime_iso 64029052800000000 100 1 20 100
            ''next week'' ''medium'' = Inl ValueError)"
proof -
  note m = pricing_failure_modes
  have n: "strptime_iso ''next week'' = None"
    by (simp add: strptime_iso_def)
  have a: "calculate_dynamic_price strptime_iso 64029052800000000 100 1 0 0
       ''2030-01-01 12:00:00'' ''medium'' = Inl ZeroDivisionError"
    using m [THEN conjunct1] by blast
  have b: "calculate_dynamic_price strptime_iso 64029052800000000 100 1 20 100
            ''2030-01-01 12:00:00'' ''medium'' \<noteq> Inl ZeroDivisionError"
    using m [THEN conjunct2, THEN conjunct1] by simp
  have c: "\<exists>p. calculate_dynamic_price strptime_iso 64029052800000000 100 1 20 100
            ''2030-01-01 12:00:00'' ''medium'' = Inr p"
    using m [THEN conjunct2, THEN conjunct2, THEN conjunct1] strptime_iso_noon by simp
  have d: "calculate_dynamic_price strptime_iso 64029052800000000 100 1 20 100
            ''next week'' ''medium'' = Inl ValueError"
    using m [THEN conjunct2, THEN conjunct2, THEN conjunct2] n by simp
  from a b c d n strptime_iso_noon show ?thesis by simp
qed

theorem pricing_not_total_counterexample:
  "(0 :: int) < 100
   \<and> calculate_dynamic_price strptime_iso 64029052800000000 100 1 20 100
        ''tomorrow'' ''medium'' = Inl ValueError"
  by (simp add: dynamic_price_unparsed strptime_iso_tomorrow)

section \<open>Facts about the refund policy\<close>

lemma refund_percentage_parsed:
  "strptime dep = Some d \<Longrightarrow>
   calculate_refund_percentage strptime now dep =
     (if total_seconds (d - now) / 3600 > 72 then 100
      else if total_seconds (d - now) / 3600 \<ge> 24 then 75
      else if total_seconds (d - now) / 3600 \<ge> 2 then 50
      else 0)"
  by (simp add: calculate_refund_percentage_def refund_try_def Let_def)

lemma refund_percentage_unparsed:
  "strptime dep = None \<Longrightarrow> calculate_refund_percentage strptime now dep = 0"
  by (simp add: calculate_refund_percentage_def refund_try_def)

lemma refund_percentage_range:
  "calculate_refund_percentage strptime now dep \<in> {0, 50, 75, 100}"
  by (cases "strptime dep") (simp_all add: refund_percentage_unparsed refund_percentage_parsed)

lemma refund_percentage_mono:
  "strptime dep1 = Some d1 \<Longrightarrow> strptime dep2 = Some d2 \<Longrightarrow>
   total_seconds (d1 - now) / 3600 \<le> total_seconds (d2 - now) / 3600 \<Longrightarrow>
   calculate_refund_percentage strptime now dep1 \<le> calculate_refund_percentage strptime now dep2"
  by (simp add: refund_percentage_parsed)

lemma refund_percentage_after:
  "strptime dep = Some d \<Longrightarrow> d - now = h * 3600 * 10 ^ 6 \<Longrightarrow>
   calculate_refund_percentage strptime now dep =
     (if h > 72 then 100 else if h \<ge> 24 then 75 else if h \<ge> 2 then 50 else 0)"
  by (simp add: refund_percentage_parsed total_seconds_def)

text \<open>
  Claim C4, as amended. For every departure time and clock value the refund percentage is
  one of 0, 50, 75 and 100. When the departure time parses, more than 72 hours to departure
  give 100, from 24 up to (but not including) 72 hours give 75, from 2 up to (but not
  including) 24 hours give 50, and fewer than 2 hours give 0. The percentage never
  decreases when the hours to departure grow. Exactly 100 hours give 100, exactly 10 hours
  give 50, exactly 1 hour gives 0. (As stated, the claim calls the function non-increasing
  in the hours to departure; the counterexample after the witness refutes that.)
\<close>

theorem refund_percentage_steps:
  "(\<forall>strptime now dep. calculate_refund_percentage strptime now dep \<in> {0, 50, 75, 100})
   \<and> (\<forall>strptime now dep d.
        strptime dep = Some d \<and> total_seconds (d - now) / 3600 > 72 \<longrightarrow>
        calculate_refund_percentage strptime now dep = 100)
   \<and> (\<forall>strptime now dep d.
        strptime dep = Some d \<and> 24 \<le> total_seconds (d - now) / 3600
        \<and> total_seconds (d - now) / 3600 < 72 \<longrightarrow>
        calculate_refund_percentage strptime now dep = 75)
   \<and> (\<forall>strptime now dep d.
        strptime dep = Some d \<and> 2 \<le> total_seconds (d - now) / 3600
        \<and> total_seconds (d - now) / 3600 < 24 \<longrightarrow>
        calculate_refund_percentage strptime now dep = 50)
   \<and> (\<forall>strptime now dep d.
        strptime dep = Some d \<and> total_seconds (d - now) / 3600 < 2 \<longrightarrow>
        calculate_refund_percentage strptime now dep = 0)
   \<and> (\<forall>strptime now dep1 dep2 d1 d2.
        strptime dep1 = Some d1 \<and> strptime dep2 = Some d2
        \<and> total_seconds (d1 - now) / 3600 \<le> total_seconds (d2 - now) / 3600 \<longrightarrow>
        calculate_refund_percentage strptime now dep1
          \<le> calculate_refund_percentage strptime now dep2)
   \<and> (\<forall>strptime now dep d.
        strptime dep = Some d \<and> d - now = 100 * 3600 * 10 ^ 6 \<longrightarrow>
        calculate_refund_percentage strptime now dep = 100)
   \<and> (\<forall>strptime now dep d.
        strptime dep = Some d \<and> d - now = 10 * 3600 * 10 ^ 6 \<longrightarrow>
        calculate_refund_percentage strptime now dep = 50)
   \<and> (\<forall>strptime now dep d.
        strptime dep = Some d \<and> d - now = 1 * 3600 * 10 ^ 6 \<longrightarrow>
        calculate_refund_percentage strptime now dep = 0)"
proof (intro conjI allI impI; (elim conjE)?)
  fix strptime :: "string \<Rightarrow> datetime option" and now dep
  show "calculate_refund_percentage strptime now dep \<in> {0, 50, 75, 100}"
    by (rule refund_percentage_range)
next
  fix strptime :: "string \<Rightarrow> datetime option" and now dep1 dep2 d1 d2
  assume "strptime dep1 = Some d1" "strptime dep2 = Some d2"
    "total_seconds (d1 - now) / 3600 \<le> total_seconds (d2 - now) / 3600"
  then show "calculate_refund_percentage strptime now dep1
          \<le> calculate_refund_percentage strptime now dep2"
    by (rule refund_percentage_mono)
next
  fix strptime :: "string \<Rightarrow> datetime option" and now dep d
  assume "strptime dep = Some d" "d - now = 100 * 3600 * 10 ^ 6"
  then show "calculate_refund_percentage strptime now dep = 100"
    using refund_percentage_after [of strptime dep d now 100] by simp
next
  fix strptime :: "string \<Rightarrow> datetime option" and now dep d
  assume "strptime dep = Some d" "d - now = 10 * 3600 * 10 ^ 6"
  then show "calculate_refund_percentage strptime now dep = 50"
    using refund_percentage_after [of strptime dep d now 10] by simp
next
  fix strptime :: "string \<Rightarrow> datetime option" and now dep d
  assume "strptime dep = Some d" "d - now = 1 * 3600 * 10 ^ 6"
  then show "calculate_refund_percentage strptime now dep = 0"
    using refund_percentage_after [of strptime dep d now 1] by simp
qed (simp_all add: refund_percentage_parsed)

lemma strptime_iso_1h: "strptime_iso ''2030-01-01 01:00:00'' = Some 64029056400000000"
  by code_simp

lemma strptime_iso_10h: "strptime_iso ''2030-01-01 10:00:00'' = Some 64029088800000000"
  by code_simp

lemma strptime_iso_48h: "strptime_iso ''2030-01-03 00:00:00'' = Some 64029225600000000"
  by code_simp

lemma strptime_iso_100h: "strptime_iso ''2030-01-05 04:00:00'' = Some 64029412800000000"
  by code_simp

theorem refund_percentage_steps_witness:
  "calculate_refund_percentage strptime_iso 64029052800000000 ''soon'' \<in> {0, 50, 75, 100}
   \<and> (strptime_iso ''2030-01-05 04:00:00'' = Some 64029412800000000
        \<and> total_seconds (64029412800000000 - 64029052800000000) / 3600 > 72
        \<and> calculate_refund_percentage strptime_iso 64029052800000000 ''2030-01-05 04:00:00''
            = 100)
   \<and> (strptime_iso ''2030-01-03 00:00:00'' = Some 64029225600000000
        \<and> 24 \<le> total_seconds (64029225600000000 - 64029052800000000) / 3600
        \<and> total_seconds (64029225600000000 - 64029052800000000) / 3600 < 72
        \<and> calculate_refund_percentage strptime_iso 64029052800000000 ''2030-01-03 00:00:00''
            = 75)
   \<and> (strptime_iso ''2030-01-01 10:00:00'' = Some 64029088800000000
        \<and> 2 \<le> total_seconds (64029088800000000 - 64029052800000000) / 3600
        \<and> total_seconds (64029088800000000 - 64029052800000000) / 3600 < 24
        \<and> 64029088800000000 - 64029052800000000 = (10 * 3600 * 10 ^ 6 :: int)
        \<and> calculate_refund_percentage strptime_iso 64029052800000000 ''2030-01-01 10:00:00''
            = 50)
   \<and> (strptime_iso ''2030-01-01 01:00:00'' = Some 64029056400000000
        \<and> total_seconds (64029056400000000 - 64029052800000000) / 3600 < 2
        \<and> 64029056400000000 - 64029052800000000 = (1 * 3600 * 10 ^ 6 :: int)
        \<and> calculate_refund_percentage strptime_iso 64029052800000000 ''2030-01-01 01:00:00''
            = 0)
   \<and> (total_seconds (64029056400000000 - 64029052800000000) / 3600
          \<le> total_seconds (64029412800000000 - 64029052800000000) / 3600
        \<and> calculate_refund_percentage strptime_iso 64029052800000000 ''2030-01-01 01:00:00''
            \<le> calculate_refund_percentage strptime_iso 64029052800000000
                 ''2030-01-05 04:00:00'')
   \<and> 64029412800000000 - 64029052800000000 = (100 * 3600 * 10 ^ 6 :: int)"
proof -
  note s = refund_percentage_steps
  let ?now = "64029052800000000 :: int"
  have r: "calculate_refund_percentage strptime_iso ?now ''soon'' \<in> {0, 50, 75, 100}"
    using s [THEN conjunct1] by blast
  have a: "calculate_refund_percentage strptime_iso ?now ''2030-01-05 04:00:00'' = 100"
    using s [THEN conjunct2, THEN conjunct2, THEN conjunct2, THEN conjunct2, THEN conjunct2,
        THEN conjunct2, THEN conjunct1, rule_format,
        of strptime_iso "''2030-01-05 04:00:00''" 64029412800000000 ?now]
      strptime_iso_100h by simp
  have a': "calculate_refund_percentage strptime_iso ?now ''2030-01-05 04:00:00'' = 100"
    using s [THEN conjunct2, THEN conjunct1, rule_format,
        of strptime_iso "''2030-01-05 04:00:00''" 64029412800000000 ?now]
      strptime_iso_100h by (simp add: total_seconds_def)
  have b: "calculate_refund_percentage strptime_iso ?now ''2030-01-03 00:00:00'' = 75"
    using s [THEN conjunct2, THEN conjunct2, THEN conjunct1, rule_format,
        of strptime_iso "''2030-01-03 00:00:00''" 64029225600000000 ?now]
      strptime_iso_48h by (simp add: total_seconds_def)
  have c: "calculate_refund_percentage strptime_iso ?now ''2030-01-01 10:00:00'' = 50"
    using s [THEN conjunct2, THEN conjunct2, THEN conjunct2, THEN conjunct1, rule_format,
        of strptime_iso "''2030-01-01 10:00:00''" 64029088800000000 ?now]
      strptime_iso_10h by (simp add: total_seconds_def)
  have c': "calculate_refund_percentage strptime_iso ?now ''2030-01-01 10:00:00'' = 50"
    using s [THEN conjunct2, THEN conjunct2, THEN conjunct2, THEN conjunct2, THEN conjunct2,
        THEN conjunct2, THEN conjunct2, THEN conjunct1, rule_format,
        of strptime_iso "''2030-01-01 10:00:00''" 64029088800000000 ?now]
      strptime_iso_10h by simp
  have d: "calculate_refund_percentage strptime_iso ?now ''2030-01-01 01:00:00'' = 0"
    using s [THEN conjunct2, THEN conjunct2, THEN conjunct2, THEN conjunct2, THEN conjunct1,
        rule_format, of strptime_iso "''2030-01-01 01:00:00''" 64029056400000000 ?now]
      strptime_iso_1h by (simp add: total_seconds_def)
  have d': "calculate_refund_percentage strptime_iso ?now ''2030-01-01 01:00:00'' = 0"
    using s [THEN conjunct2, THEN conjunct2, THEN conjunct2, THEN conjunct2, THEN conjunct2,
        THEN conjunct2, THEN conjunct2, THEN conjunct2, rule_format,
        of strptime_iso "''2030-01-01 01:00:00''" 64029056400000000 ?now]
      strptime_iso_1h by simp
  have e: "calculate_refund_percentage strptime_iso ?now ''2030-01-01 01:00:00''
            \<le> calculate_refund_percentage strptime_iso ?now ''2030-01-05 04:00:00''"
    using s [THEN conjunct2, THEN conjunct2, THEN conjunct2, THEN conjunct2, THEN conjunct2,
        THEN conjunct1, rule_format,
        of strptime_iso "''2030-01-01 01:00:00''" 64029056400000000
           "''2030-01-05 04:00:00''" 64029412800000000 ?now]
      strptime_iso_1h strptime_iso_100h by (simp add: total_seconds_def)
  from r a b c d e strptime_iso_1h strptime_iso_10h strptime_iso_48h strptime_iso_100h
  show ?thesis by (simp add: total_seconds_def)
qed

theorem refund_not_non_increasing_counterexample:
  "total_seconds (64029056400000000 - 64029052800000000) / 3600
      < total_seconds (64029412800000000 - 64029052800000000) / 3600
   \<and> calculate_refund_percentage strptime_iso 64029052800000000 ''2030-01-01 01:00:00''
      < calculate_refund_percentage strptime_iso 64029052800000000 ''2030-01-05 04:00:00''"
  by (simp add: refund_percentage_parsed strptime_iso_1h strptime_iso_100h total_seconds_def)

section \<open>Facts about the endpoints\<close>

lemma create_booking_conflict:
  assumes "Flights st (rq_flight_id booking) = Some flight"
    and "Seats st (rq_flight_id booking, rq_seat_class booking) = Some seat_info"
    and "available_seats seat_info < seats_count booking"
  shows "create_booking strptime now stamp code booking st =
    (Inl (HTTPException 409
       (Only_seats_available (available_seats seat_info) (seats_count booking))), st)"
  using assms by (simp add: create_booking_def)

lemma create_booking_error_unchanged:
  "create_booking strptime now stamp code booking st = (Inl e, st') \<Longrightarrow> st' = st"
  by (auto simp: create_booking_def Let_def split: option.splits if_splits sum.splits)

lemma create_booking_success:
  assumes "create_booking strptime now stamp code booking st = (Inr r, st')"
  obtains flight seat_info price_per_seat where
    "Flights st (rq_flight_id booking) = Some flight"
    and "Seats st (rq_flight_id booking, rq_seat_class booking) = Some seat_info"
    and "seats_count booking \<le> available_seats seat_info"
    and "calculate_dynamic_price strptime now (base_price flight) (price_multiplier seat_info)
           (available_seats seat_info) (total_seats flight) (departure_time flight) ''medium''
         = Inr price_per_seat"
    and "br_pricing_summary r =
           \<lparr>ps_price_per_seat = price_per_seat, ps_seats_booked = seats_count booking,
            ps_total_price = py_round (float_mul price_per_seat (of_int (seats_count booking))) 2\<rparr>"
    and "br_booking r =
           \<lparr>booking_id = lastrowid (Bookings st), flight_id = rq_flight_id booking,
            user_id = rq_user_id booking, seat_class = rq_seat_class booking,
            seats_booked = seats_count booking,
            final_price = py_round (float_mul price_per_seat (of_int (seats_count booking))) 2,
            booking_date = stamp, status = ''Confirmed'', pnr = code\<rparr>"
    and "Bookings st' = Bookings st @ [br_booking r]"
    and "Seats st' = (Seats st)((rq_flight_id booking, rq_seat_class booking) \<mapsto>
           seat_info\<lparr>available_seats := available_seats seat_info - seats_count booking\<rparr>)"
    and "Flights st' = Flights st"
    and "Transactions st' = Transactions st @
           [\<lparr>t_booking_id = lastrowid (Bookings st),
             t_amount = py_round (float_mul price_per_seat (of_int (seats_count booking))) 2,
             t_payment_method = payment_method booking, t_status = ''Completed'',
             t_transaction_date = stamp\<rparr>]"
  using assms
  by (auto simp: create_booking_def Let_def split: option.splits if_splits sum.splits)

lemma cancel_booking_cancelled:
  assumes "find (\<lambda>b. booking_id b = bid) (Bookings st) = Some booking"
    and "status booking = ''Cancelled''"
  shows "cancel_booking strptime now stamp bid st =
    (Inr \<lparr>cn_success = True, cn_booking_id = bid, cn_status = ''Cancelled'',
          cn_refund_percentage = 0, cn_refund_amount = 0\<rparr>, st)"
  using assms by (simp add: cancel_booking_def)

lemma cancel_booking_error_unchanged:
  "cancel_booking strptime now stamp bid st = (Inl e, st') \<Longrightarrow> st' = st"
  by (auto simp: cancel_booking_def Let_def split: option.splits if_splits)

lemma cancel_booking_confirmed:
  assumes "find (\<lambda>b. booking_id b = bid) (Bookings st) = Some booking"
    and "status booking \<noteq> ''Cancelled''"
    and "Flights st (flight_id booking) = Some flight"
    and "Seats st (flight_id booking, seat_class booking) = Some seat_row"
  shows "fst (cancel_booking strptime now stamp bid st) =
           Inr \<lparr>cn_success = True, cn_booking_id = bid, cn_status = ''Cancelled'',
                 cn_refund_percentage =
                   calculate_refund_percentage strptime now (departure_time flight),
                 cn_refund_amount =
                   py_round (float_div (float_mul (final_price booking) (of_int
                     (calculate_refund_percentage strptime now (departure_time flight))))
                     100) 2\<rparr>"
    and "Seats (snd (cancel_booking strptime now stamp bid st)) =
           (Seats st)((flight_id booking, seat_class booking) \<mapsto>
             seat_row\<lparr>available_seats :=
               min (available_seats seat_row + seats_booked booking)
                   (initial_inventory seat_row)\<rparr>)"
    and "Bookings (snd (cancel_booking strptime now stamp bid st)) =
           map (\<lambda>b. if booking_id b = bid then b\<lparr>status := ''Cancelled''\<rparr> else b)
             (Bookings st)"
    and "Flights (snd (cancel_booking strptime now stamp bid st)) = Flights st"
    and "Transactions (snd (cancel_booking strptime now stamp bid st)) =
           (if py_round (float_div (float_mul (final_price booking) (of_int
                 (calculate_refund_percentage strptime now (departure_time flight))))
                 100) 2 > 0
            then Transactions st @
              [\<lparr>t_booking_id = bid,
                t_amount = - py_round (float_div (float_mul (final_price booking) (of_int
                  (calculate_refund_percentage strptime now (departure_time flight))))
                  100) 2,
                t_payment_method = ''REFUND'', t_status = ''Completed'',
                t_transaction_date = stamp\<rparr>]
            else Transactions st)"
  using assms by (simp_all add: cancel_booking_def Let_def min_def)

lemma find_after_cancel:
  "find (\<lambda>b. booking_id b = bid) bs = Some booking \<Longrightarrow>
   find (\<lambda>b. booking_id b = bid)
     (map (\<lambda>b. if booking_id b = bid then b\<lparr>status := ''Cancelled''\<rparr> else b) bs)
   = Some (booking\<lparr>status := ''Cancelled''\<rparr>)"
  by (induction bs) (auto split: if_splits)

subsection \<open>The inventory invariant, step by step\<close>

lemma create_booking_preserves:
  assumes "inventory_in_bounds st" and "bookings_nonneg st" and "0 \<le> seats_count booking"
  shows "inventory_in_bounds (snd (create_booking strptime now stamp code booking st))
         \<and> bookings_nonneg (snd (create_booking strptime now stamp code booking st))"
proof (cases "create_booking strptime now stamp code booking st")
  case (Pair res st')
  show ?thesis
  proof (cases res)
    case (Inl e)
    with Pair have "st' = st" by (simp add: create_booking_error_unchanged)
    with Pair assms show ?thesis by simp
  next
    case (Inr r)
    with Pair have c: "create_booking strptime now stamp code booking st = (Inr r, st')"
      by simp
    from c obtain flight seat_info price_per_seat where
      s: "Seats st (rq_flight_id booking, rq_seat_class booking) = Some seat_info"
      and le: "seats_count booking \<le> available_seats seat_info"
      and b: "br_booking r =
           \<lparr>booking_id = lastrowid (Bookings st), flight_id = rq_flight_id booking,
            user_id = rq_user_id booking, seat_class = rq_seat_class booking,
            seats_booked = seats_count booking,
            final_price = py_round (float_mul price_per_seat (of_int (seats_count booking))) 2,
            booking_date = stamp, status = ''Confirmed'', pnr = code\<rparr>"
      and bs: "Bookings st' = Bookings st @ [br_booking r]"
      and ss: "Seats st' = (Seats st)((rq_flight_id booking, rq_seat_class booking) \<mapsto>
           seat_info\<lparr>available_seats := available_seats seat_info - seats_count booking\<rparr>)"
      by (rule create_booking_success)
    from assms(1) s have "0 \<le> available_seats seat_info"
      and "available_seats seat_info \<le> initial_inventory seat_info"
      by (auto simp: inventory_in_bounds_def)
    with le assms(3) assms(1) ss have "inventory_in_bounds st'"
      by (auto simp: inventory_in_bounds_def)
    moreover from assms(2,3) b bs have "bookings_nonneg st'"
      by (auto simp: bookings_nonneg_def)
    ultimately show ?thesis using Pair by simp
  qed
qed

lemma find_Some_set: "find P xs = Some x \<Longrightarrow> x \<in> set xs"
  by (induction xs) (auto split: if_splits)

lemma cancel_booking_preserves:
  assumes "inventory_in_bounds st" and "bookings_nonneg st"
  shows "inventory_in_bounds (snd (cancel_booking strptime now stamp bid st))
         \<and> bookings_nonneg (snd (cancel_booking strptime now stamp bid st))"
proof (cases "cancel_booking strptime now stamp bid st")
  case (Pair res st')
  show ?thesis
  proof (cases res)
    case (Inl e)
    with Pair have "st' = st" by (simp add: cancel_booking_error_unchanged)
    with Pair assms show ?thesis by simp
  next
    case (Inr r)
    show ?thesis
    proof (cases "find (\<lambda>b. booking_id b = bid) (Bookings st)")
      case None
      then show ?thesis using assms by (simp add: cancel_booking_def)
    next
      case (Some booking)
      show ?thesis
      proof (cases "status booking = ''Cancelled''")
        case True
        then show ?thesis using assms Some by (simp add: cancel_booking_cancelled)
      next
        case False
        show ?thesis
        proof (cases "Flights st (flight_id booking)")
          case None
          then show ?thesis using assms Some False by (simp add: cancel_booking_def)
        next
          case flight: (Some flight)
          show ?thesis
          proof (cases "Seats st (flight_id booking, seat_class booking)")
            case None
            then show ?thesis using assms Some False flight
              by (simp add: cancel_booking_def Let_def)
          next
            case seat: (Some seat_row)
            note c = cancel_booking_confirmed [OF Some False flight seat, of strptime now stamp]
            from Some have "booking \<in> set (Bookings st)" by (rule find_Some_set)
            with assms(2) have sb: "0 \<le> seats_booked booking"
              by (simp add: bookings_nonneg_def)
            from assms(1) seat have "0 \<le> available_seats seat_row"
              and "available_seats seat_row \<le> initial_inventory seat_row"
              by (auto simp: inventory_in_bounds_def)
            with sb assms(1) c(2)
            have "inventory_in_bounds (snd (cancel_booking strptime now stamp bid st))"
              by (auto simp: inventory_in_bounds_def)
            moreover from assms(2) c(3)
            have "bookings_nonneg (snd (cancel_booking strptime now stamp bid st))"
              by (auto simp: bookings_nonneg_def)
            ultimately show ?thesis by simp
          qed
        qed
      qed
    qed
  qed
qed

lemma apply_operation_preserves:
  assumes "inventory_in_bounds st" and "bookings_nonneg st"
  shows "inventory_in_bounds (apply_operation strptime op st)
         \<and> bookings_nonneg (apply_operation strptime op st)"
proof (cases op)
  case (CreateBooking now stamp code booking)
  show ?thesis
  proof (cases "BookingRequest_valid booking")
    case True
    then have "0 \<le> seats_count booking" by (simp add: BookingRequest_valid_def)
    with assms CreateBooking True show ?thesis
      by (simp add: create_booking_preserves)
  next
    case False
    with assms CreateBooking show ?thesis by simp
  qed
next
  case (CancelBooking now stamp bid)
  with assms show ?thesis by (simp add: cancel_booking_preserves)
qed

lemma apply_operations_preserve:
  "inventory_in_bounds st \<Longrightarrow> bookings_nonneg st \<Longrightarrow>
   inventory_in_bounds (apply_operations strptime ops st)
   \<and> bookings_nonneg (apply_operations strptime ops st)"
  unfolding apply_operations_def
proof (induction ops arbitrary: st)
  case Nil
  then show ?case by simp
next
  case (Cons op ops)
  from Cons.prems have "inventory_in_bounds (apply_operation strptime op st)
         \<and> bookings_nonneg (apply_operation strptime op st)"
    by (simp add: apply_operation_preserves)
  then show ?case using Cons.IH by simp
qed

lemma initial_store_in_bounds:
  "initial_store st \<Longrightarrow> inventory_in_bounds st \<and> bookings_nonneg st"
  by (auto simp: initial_store_def inventory_in_bounds_def bookings_nonneg_def)

lemma create_bookings_inventory:
  "create_bookings strptime calls st = Some st' \<Longrightarrow> Seats st key = Some row \<Longrightarrow>
   Seats st' key = Some (row\<lparr>available_seats := available_seats row - booked_seats key calls\<rparr>)"
proof (induction calls arbitrary: st row)
  case Nil
  then show ?case by simp
next
  case (Cons call calls)
  obtain now stamp code booking where call: "call = (now, stamp, code, booking)"
    by (cases call) auto
  from Cons.prems(1) call obtain r st1 where
    c: "create_booking strptime now stamp code booking st = (Inr r, st1)"
    and rest: "create_bookings strptime calls st1 = Some st'"
    by (auto split: prod.splits sum.splits)
  from c obtain seat_info where
    s: "Seats st (rq_flight_id booking, rq_seat_class booking) = Some seat_info"
    and ss: "Seats st1 = (Seats st)((rq_flight_id booking, rq_seat_class booking) \<mapsto>
           seat_info\<lparr>available_seats := available_seats seat_info - seats_count booking\<rparr>)"
    by (rule create_booking_success)
  show ?case
  proof (cases "(rq_flight_id booking, rq_seat_class booking) = key")
    case True
    with s Cons.prems(2) have "seat_info = row" by simp
    with ss True have "Seats st1 key =
        Some (row\<lparr>available_seats := available_seats row - seats_count booking\<rparr>)"
      by auto
    from Cons.IH [OF rest this] True call show ?thesis
      by (simp add: algebra_simps)
  next
    case False
    with ss Cons.prems(2) have "Seats st1 key = Some row" by auto
    from Cons.IH [OF rest this] False call show ?thesis by simp
  qed
qed

subsection \<open>Booking and cancellation\<close>

lemma create_booking_succeeds:
  assumes "Flights st (rq_flight_id booking) = Some flight"
    and "Seats st (rq_flight_id booking, rq_seat_class booking) = Some seat_info"
    and "seats_count booking \<le> available_seats seat_info"
    and "total_seats flight \<noteq> 0"
    and "strptime (departure_time flight) = Some d"
  shows "\<exists>r. fst (create_booking strptime now stamp code booking st) = Inr r"
proof -
  obtain p where "calculate_dynamic_price strptime now (base_price flight)
      (price_multiplier seat_info) (available_seats seat_info) (total_seats flight)
      (departure_time flight) ''medium'' = Inr p"
    using dynamic_price_parsed [where strptime = strptime, OF assms(4,5)] by blast
  with assms(1-3) show ?thesis
    by (simp add: create_booking_def Let_def)
qed

text \<open>
  Claim C1. A booking request for more seats than its inventory row has available fails
  with status 409 and the store is returned as it was: no row of Bookings, Passengers,
  Transactions or BookingHistory is added and the inventory row keeps its
  \<open>available_seats\<close>.
\<close>

theorem create_booking_conflict_unchanged:
  assumes "Flights st (rq_flight_id booking) = Some flight"
    and "Seats st (rq_flight_id booking, rq_seat_class booking) = Some seat_info"
    and "available_seats seat_info < seats_count booking"
  shows "create_booking strptime now stamp code booking st =
    (Inl (HTTPException 409
       (Only_seats_available (available_seats seat_info) (seats_count booking))), st)"
  using assms by (rule create_booking_conflict)

theorem create_booking_conflict_unchanged_witness:
  "Flights (example_store ''2030-01-01 12:00:00'' 1 []) (rq_flight_id (example_request 2))
     = Some \<lparr>base_price = 100, total_seats = 100, departure_time = ''2030-01-01 12:00:00''\<rparr>
   \<and> Seats (example_store ''2030-01-01 12:00:00'' 1 [])
         (rq_flight_id (example_request 2), rq_seat_class (example_request 2))
       = Some \<lparr>initial_inventory = 20, available_seats = 1, price_multiplier = 1\<rparr>
   \<and> (1 :: int) < seats_count (example_request 2)
   \<and> create_booking strptime_iso 64029052800000000 ''2029-12-31 09:30:00'' ''K7XQ2M''
         (example_request 2) (example_store ''2030-01-01 12:00:00'' 1 [])
       = (Inl (HTTPException 409 (Only_seats_available 1 2)),
          example_store ''2030-01-01 12:00:00'' 1 [])"
proof -
  let ?st = "example_store ''2030-01-01 12:00:00'' 1 []"
  have f: "Flights ?st (rq_flight_id (example_request 2))
     = Some \<lparr>base_price = 100, total_seats = 100, departure_time = ''2030-01-01 12:00:00''\<rparr>"
    by (simp add: example_store_def example_request_def)
  have s: "Seats ?st (rq_flight_id (example_request 2), rq_seat_class (example_request 2))
       = Some \<lparr>initial_inventory = 20, available_seats = 1, price_multiplier = 1\<rparr>"
    by (simp add: example_store_def example_request_def)
  have c: "available_seats \<lparr>initial_inventory = 20, available_seats = 1, price_multiplier = 1\<rparr>
      < seats_count (example_request 2)"
    by (simp add: example_request_def)
  from create_booking_conflict_unchanged [OF f s c, of strptime_iso 64029052800000000
      "''2029-12-31 09:30:00''" "''K7XQ2M''"] f s c
  show ?thesis by (simp add: example_request_def)
qed

lemma cancel_booking_twice:
  assumes "fst (cancel_booking strptime now stamp bid st) = Inr r"
  shows "cancel_booking strptime now2 stamp2 bid (snd (cancel_booking strptime now stamp bid st))
    = (Inr \<lparr>cn_success = True, cn_booking_id = bid, cn_status = ''Cancelled'',
            cn_refund_percentage = 0, cn_refund_amount = 0\<rparr>,
       snd (cancel_booking strptime now stamp bid st))"
proof (cases "find (\<lambda>b. booking_id b = bid) (Bookings st)")
  case None
  with assms show ?thesis by (simp add: cancel_booking_def)
next
  case (Some booking)
  show ?thesis
  proof (cases "status booking = ''Cancelled''")
    case True
    with Some show ?thesis by (simp add: cancel_booking_cancelled)
  next
    case False
    show ?thesis
    proof (cases "Flights st (flight_id booking)")
      case None
      with assms Some False show ?thesis by (simp add: cancel_booking_def)
    next
      case flight: (Some flight)
      show ?thesis
      proof (cases "Seats st (flight_id booking, seat_class booking)")
        case None
        with assms Some False flight show ?thesis by (simp add: cancel_booking_def Let_def)
      next
        case seat: (Some seat_row)
        note c = cancel_booking_confirmed [OF Some False flight seat, of strptime now stamp]
        have "find (\<lambda>b. booking_id b = bid)
            (Bookings (snd (cancel_booking strptime now stamp bid st)))
          = Some (booking\<lparr>status := ''Cancelled''\<rparr>)"
          using Some by (simp only: c(3) find_after_cancel)
        then show ?thesis by (rule cancel_booking_cancelled) simp
      qed
    qed
  qed
qed

text \<open>
  Claim C5. Cancelling a booking whose status is already \<open>Cancelled\<close> returns success with
  refund percentage 0 and refund amount 0, and returns the store as it was (booking status,
  inventory, Transactions and BookingHistory included). After any call of \<open>cancel_booking\<close>
  that returned success, a further call for the same booking is such a call.
\<close>

theorem cancel_booking_idempotent:
  "(\<forall>strptime now stamp bid st booking.
      find (\<lambda>b. booking_id b = bid) (Bookings st) = Some booking
      \<and> status booking = ''Cancelled'' \<longrightarrow>
      cancel_booking strptime now stamp bid st =
        (Inr \<lparr>cn_success = True, cn_booking_id = bid, cn_status = ''Cancelled'',
              cn_refund_percentage = 0, cn_refund_amount = 0\<rparr>, st))
   \<and> (\<forall>strptime now stamp now2 stamp2 bid st r.
        fst (cancel_booking strptime now stamp bid st) = Inr r \<longrightarrow>
        cancel_booking strptime now2 stamp2 bid
            (snd (cancel_booking strptime now stamp bid st)) =
          (Inr \<lparr>cn_success = True, cn_booking_id = bid, cn_status = ''Cancelled'',
                cn_refund_percentage = 0, cn_refund_amount = 0\<rparr>,
           snd (cancel_booking strptime now stamp bid st)))"
proof (intro conjI allI impI)
  fix strptime :: "string \<Rightarrow> datetime option" and now stamp bid and st :: store
    and booking
  assume "find (\<lambda>b. booking_id b = bid) (Bookings st) = Some booking
      \<and> status booking = ''Cancelled''"
  then show "cancel_booking strptime now stamp bid st =
        (Inr \<lparr>cn_success = True, cn_booking_id = bid, cn_status = ''Cancelled'',
              cn_refund_percentage = 0, cn_refund_amount = 0\<rparr>, st)"
    by (simp add: cancel_booking_cancelled)
next
  fix strptime :: "string \<Rightarrow> datetime option" and now stamp now2 stamp2 bid st r
  assume "fst (cancel_booking strptime now stamp bid st) = Inr r"
  then show "cancel_booking strptime now2 stamp2 bid
            (snd (cancel_booking strptime now stamp bid st)) =
          (Inr \<lparr>cn_success = True, cn_booking_id = bid, cn_status = ''Cancelled'',
                cn_refund_percentage = 0, cn_refund_amount = 0\<rparr>,
           snd (cancel_booking strptime now stamp bid st))"
    by (rule cancel_booking_twice)
qed

lemma example_find:
  "find (\<lambda>b. booking_id b = 1) (Bookings (example_store dep avail [example_booking s]))
     = Some (example_booking s)"
  by (simp add: example_store_def example_booking_def)

lemma example_cancel_10h:
  "fst (cancel_booking strptime_iso 64029052800000000 ''2030-01-01 00:00:00'' 1
          (example_store ''2030-01-01 10:00:00'' 19 [example_booking ''Confirmed'']))
   = Inr \<lparr>cn_success = True, cn_booking_id = 1, cn_status = ''Cancelled'',
          cn_refund_percentage = 50, cn_refund_amount = 300\<rparr>"
proof -
  let ?st = "example_store ''2030-01-01 10:00:00'' 19 [example_booking ''Confirmed'']"
  have p: "calculate_refund_percentage strptime_iso 64029052800000000 ''2030-01-01 10:00:00''
      = 50"
    by (simp add: refund_percentage_parsed strptime_iso_10h total_seconds_def)
  have "fst (cancel_booking strptime_iso 64029052800000000 ''2030-01-01 00:00:00'' 1 ?st)
    = Inr \<lparr>cn_success = True, cn_booking_id = 1, cn_status = ''Cancelled'',
          cn_refund_percentage =
            calculate_refund_percentage strptime_iso 64029052800000000 ''2030-01-01 10:00:00'',
          cn_refund_amount = py_round (float_div (float_mul 600 (of_int
            (calculate_refund_percentage strptime_iso 64029052800000000
               ''2030-01-01 10:00:00''))) 100) 2\<rparr>"
    using cancel_booking_confirmed(1) [OF example_find, of "''Confirmed''"
        "''2030-01-01 10:00:00''" 19
        "\<lparr>base_price = 100, total_seats = 100, departure_time = ''2030-01-01 10:00:00''\<rparr>"
        "\<lparr>initial_inventory = 20, available_seats = 19, price_multiplier = 1\<rparr>"
        strptime_iso 64029052800000000 "''2030-01-01 00:00:00''"]
    by (simp add: example_store_def example_booking_def)
  then show ?thesis by (simp only: p) (simp add: refund_300)
qed

theorem cancel_booking_idempotent_witness:
  "(find (\<lambda>b. booking_id b = 1)
       (Bookings (example_store ''2030-01-01 10:00:00'' 20 [example_booking ''Cancelled'']))
      = Some (example_booking ''Cancelled'')
    \<and> status (example_booking ''Cancelled'') = ''Cancelled''
    \<and> cancel_booking strptime_iso 64029052800000000 ''2030-01-01 00:00:00'' 1
         (example_store ''2030-01-01 10:00:00'' 20 [example_booking ''Cancelled''])
       = (Inr \<lparr>cn_success = True, cn_booking_id = 1, cn_status = ''Cancelled'',
               cn_refund_percentage = 0, cn_refund_amount = 0\<rparr>,
          example_store ''2030-01-01 10:00:00'' 20 [example_booking ''Cancelled'']))
   \<and> (fst (cancel_booking strptime_iso 64029052800000000 ''2030-01-01 00:00:00'' 1
          (example_store ''2030-01-01 10:00:00'' 19 [example_booking ''Confirmed'']))
       = Inr \<lparr>cn_success = True, cn_booking_id = 1, cn_status = ''Cancelled'',
          cn_refund_percentage = 50, cn_refund_amount = 300\<rparr>
      \<and> cancel_booking strptime_iso 64029056400000000 ''2030-01-01 01:00:00'' 1
           (snd (cancel_booking strptime_iso 64029052800000000 ''2030-01-01 00:00:00'' 1
             (example_store ''2030-01-01 10:00:00'' 19 [example_booking ''Confirmed''])))
         = (Inr \<lparr>cn_success = True, cn_booking_id = 1, cn_status = ''Cancelled'',
                 cn_refund_percentage = 0, cn_refund_amount = 0\<rparr>,
            snd (cancel_booking strptime_iso 64029052800000000 ''2030-01-01 00:00:00'' 1
             (example_store ''2030-01-01 10:00:00'' 19 [example_booking ''Confirmed'']))))"
proof -
  note i = cancel_booking_idempotent
  have s: "status (example_booking ''Cancelled'') = ''Cancelled''"
    by (simp add: example_booking_def)
  have a: "cancel_booking strptime_iso 64029052800000000 ''2030-01-01 00:00:00'' 1
         (example_store ''2030-01-01 10:00:00'' 20 [example_booking ''Cancelled''])
       = (Inr \<lparr>cn_success = True, cn_booking_id = 1, cn_status = ''Cancelled'',
               cn_refund_percentage = 0, cn_refund_amount = 0\<rparr>,
          example_store ''2030-01-01 10:00:00'' 20 [example_booking ''Cancelled''])"
    using i [THEN conjunct1, rule_format, OF conjI, OF example_find s] .
  have b: "cancel_booking strptime_iso 64029056400000000 ''2030-01-01 01:00:00'' 1
           (snd (cancel_booking strptime_iso 64029052800000000 ''2030-01-01 00:00:00'' 1
             (example_store ''2030-01-01 10:00:00'' 19 [example_booking ''Confirmed''])))
         = (Inr \<lparr>cn_success = True, cn_booking_id = 1, cn_status = ''Cancelled'',
                 cn_refund_percentage = 0, cn_refund_amount = 0\<rparr>,
            snd (cancel_booking strptime_iso 64029052800000000 ''2030-01-01 00:00:00'' 1
             (example_store ''2030-01-01 10:00:00'' 19 [example_booking ''Confirmed''])))"
    using i [THEN conjunct2, rule_format, OF example_cancel_10h] .
  from a b s example_find example_cancel_10h show ?thesis by simp
qed

text \<open>
  Claim C6. Cancelling a booking that is not yet cancelled (a Confirmed one), whose flight
  and inventory rows exist, succeeds and sets the \<open>available_seats\<close> of the booking's
  inventory row to the minimum of \<open>available_seats + seats_booked\<close> and
  \<open>initial_inventory\<close>, which never exceeds \<open>initial_inventory\<close>.
\<close>

theorem cancel_booking_restores_inventory:
  assumes "find (\<lambda>b. booking_id b = bid) (Bookings st) = Some booking"
    and "status booking \<noteq> ''Cancelled''"
    and "Flights st (flight_id booking) = Some flight"
    and "Seats st (flight_id booking, seat_class booking) = Some seat_row"
  shows "(\<exists>r. fst (cancel_booking strptime now stamp bid st) = Inr r)
    \<and> Seats (snd (cancel_booking strptime now stamp bid st))
          (flight_id booking, seat_class booking)
        = Some (seat_row\<lparr>available_seats :=
            min (available_seats seat_row + seats_booked booking)
                (initial_inventory seat_row)\<rparr>)
    \<and> min (available_seats seat_row + seats_booked booking) (initial_inventory seat_row)
        \<le> initial_inventory seat_row"
  using cancel_booking_confirmed(1,2) [OF assms, of strptime now stamp] by simp

theorem cancel_booking_restores_inventory_witness:
  "find (\<lambda>b. booking_id b = 1)
       (Bookings (example_store ''2030-01-01 10:00:00'' 19 [example_booking ''Confirmed'']))
     = Some (example_booking ''Confirmed'')
   \<and> status (example_booking ''Confirmed'') \<noteq> ''Cancelled''
   \<and> Flights (example_store ''2030-01-01 10:00:00'' 19 [example_booking ''Confirmed''])
         (flight_id (example_booking ''Confirmed''))
       = Some \<lparr>base_price = 100, total_seats = 100, departure_time = ''2030-01-01 10:00:00''\<rparr>
   \<and> Seats (example_store ''2030-01-01 10:00:00'' 19 [example_booking ''Confirmed''])
         (flight_id (example_booking ''Confirmed''), seat_class (example_booking ''Confirmed''))
       = Some \<lparr>initial_inventory = 20, available_seats = 19, price_multiplier = 1\<rparr>
   \<and> (\<exists>r. fst (cancel_booking strptime_iso 64029052800000000 ''2030-01-01 00:00:00'' 1
          (example_store ''2030-01-01 10:00:00'' 19 [example_booking ''Confirmed''])) = Inr r)
   \<and> Seats (snd (cancel_booking strptime_iso 64029052800000000 ''2030-01-01 00:00:00'' 1
          (example_store ''2030-01-01 10:00:00'' 19 [example_booking ''Confirmed''])))
         (1, ''Economy'')
       = Some \<lparr>initial_inventory = 20, available_seats = 20, price_multiplier = 1\<rparr>"
proof -
  let ?st = "example_store ''2030-01-01 10:00:00'' 19 [example_booking ''Confirmed'']"
  have s: "status (example_booking ''Confirmed'') \<noteq> ''Cancelled''"
    by (simp add: example_booking_def)
  have f: "Flights ?st (flight_id (example_booking ''Confirmed''))
       = Some \<lparr>base_price = 100, total_seats = 100, departure_time = ''2030-01-01 10:00:00''\<rparr>"
    by (simp add: example_store_def example_booking_def)
  have i: "Seats ?st
         (flight_id (example_booking ''Confirmed''), seat_class (example_booking ''Confirmed''))
       = Some \<lparr>initial_inventory = 20, available_seats = 19, price_multiplier = 1\<rparr>"
    by (simp add: example_store_def example_booking_def)
  note c = cancel_booking_restores_inventory [OF example_find s f i,
      of strptime_iso 64029052800000000 "''2030-01-01 00:00:00''"]
  have k: "(flight_id (example_booking ''Confirmed''), seat_class (example_booking ''Confirmed''))
      = (1, ''Economy'')"
    by (simp add: example_booking_def)
  have m: "seats_booked (example_booking ''Confirmed'') = 2"
    by (simp add: example_booking_def)
  from c have "Seats (snd (cancel_booking strptime_iso 64029052800000000
          ''2030-01-01 00:00:00'' 1 ?st)) (1, ''Economy'')
       = Some \<lparr>initial_inventory = 20, available_seats = 20, price_multiplier = 1\<rparr>"
    by (simp add: k m)
  with c example_find s f i show ?thesis by blast
qed

lemma create_booking_fst_snd:
  "fst (create_booking strptime now stamp code booking st) = Inr r \<Longrightarrow>
   create_booking strptime now stamp code booking st =
     (Inr r, snd (create_booking strptime now stamp code booking st))"
  by (cases "create_booking strptime now stamp code booking st") simp

text \<open>
  Claim C7. When \<open>create_booking\<close> succeeds, the price per seat it reports is the pricing
  engine's result for the \<open>available_seats\<close> of the inventory row before the call (the row
  after the call has \<open>seats_count\<close> fewer), and the price stored with the booking, which is
  also the reported total, is the price per seat times \<open>seats_count\<close> (a float
  multiplication), rounded to two decimals.
\<close>

theorem create_booking_price:
  assumes "fst (create_booking strptime now stamp code booking st) = Inr resp"
  shows "\<exists>flight seat_info.
    Flights st (rq_flight_id booking) = Some flight
    \<and> Seats st (rq_flight_id booking, rq_seat_class booking) = Some seat_info
    \<and> calculate_dynamic_price strptime now (base_price flight) (price_multiplier seat_info)
          (available_seats seat_info) (total_seats flight) (departure_time flight) ''medium''
        = Inr (ps_price_per_seat (br_pricing_summary resp))
    \<and> Seats (snd (create_booking strptime now stamp code booking st))
          (rq_flight_id booking, rq_seat_class booking)
        = Some (seat_info\<lparr>available_seats :=
            available_seats seat_info - seats_count booking\<rparr>)
    \<and> final_price (br_booking resp)
        = py_round (float_mul (ps_price_per_seat (br_pricing_summary resp))
                      (of_int (seats_count booking))) 2
    \<and> ps_total_price (br_pricing_summary resp) = final_price (br_booking resp)
    \<and> Bookings (snd (create_booking strptime now stamp code booking st))
        = Bookings st @ [br_booking resp]"
proof -
  let ?st' = "snd (create_booking strptime now stamp code booking st)"
  from assms have "create_booking strptime now stamp code booking st = (Inr resp, ?st')"
    by (rule create_booking_fst_snd)
  then obtain flight seat_info price_per_seat where
    "Flights st (rq_flight_id booking) = Some flight"
    and "Seats st (rq_flight_id booking, rq_seat_class booking) = Some seat_info"
    and "calculate_dynamic_price strptime now (base_price flight) (price_multiplier seat_info)
           (available_seats seat_info) (total_seats flight) (departure_time flight) ''medium''
         = Inr price_per_seat"
    and "br_pricing_summary resp =
           \<lparr>ps_price_per_seat = price_per_seat, ps_seats_booked = seats_count booking,
            ps_total_price = py_round (float_mul price_per_seat (of_int (seats_count booking))) 2\<rparr>"
    and "br_booking resp =
           \<lparr>booking_id = lastrowid (Bookings st), flight_id = rq_flight_id booking,
            user_id = rq_user_id booking, seat_class = rq_seat_class booking,
            seats_booked = seats_count booking,
            final_price = py_round (float_mul price_per_seat (of_int (seats_count booking))) 2,
            booking_date = stamp, status = ''Confirmed'', pnr = code\<rparr>"
    and "Bookings ?st' = Bookings st @ [br_booking resp]"
    and "Seats ?st' = (Seats st)((rq_flight_id booking, rq_seat_class booking) \<mapsto>
           seat_info\<lparr>available_seats := available_seats seat_info - seats_count booking\<rparr>)"
    by (rule create_booking_success)
  then show ?thesis by simp
qed

lemma example_create:
  "fst (create_booking strptime_iso 64029052800000000 ''2030-01-01 00:00:00'' ''K7XQ2M''
          (example_request 2) (example_store ''2030-01-01 12:00:00'' 20 []))
   = Inr \<lparr>br_success = True, br_message = ''Booking created successfully'',
          br_booking = \<lparr>booking_id = 1, flight_id = 1, user_id = 7, seat_class = ''Economy'',
            seats_booked = 2, final_price = 600, booking_date = ''2030-01-01 00:00:00'',
            status = ''Confirmed'', pnr = ''K7XQ2M''\<rparr>,
          br_passengers = [],
          br_pricing_summary =
            \<lparr>ps_price_per_seat = 300, ps_seats_booked = 2, ps_total_price = 600\<rparr>\<rparr>"
proof -
  have p: "calculate_dynamic_price strptime_iso 64029052800000000 100 1 20 100
      ''2030-01-01 12:00:00'' ''medium'' = Inr 300"
    by (rule dynamic_price_example [where strptime = strptime_iso, OF strptime_iso_noon]) simp
  show ?thesis
    by (simp add: create_booking_def example_store_def example_request_def p total_600
        lastrowid_def Let_def)
qed

lemma example_create_half_sold:
  "fst (create_booking strptime_iso 64029052800000000 ''2030-01-01 00:00:00'' ''K7XQ2M''
          (example_request 2) half_sold_store)
   = Inr \<lparr>br_success = True, br_message = ''Booking created successfully'',
          br_booking = \<lparr>booking_id = 1, flight_id = 1, user_id = 7, seat_class = ''Economy'',
            seats_booked = 2, final_price = 14374 / 100,
            booking_date = ''2030-01-01 00:00:00'', status = ''Confirmed'',
            pnr = ''K7XQ2M''\<rparr>,
          br_passengers = [],
          br_pricing_summary =
            \<lparr>ps_price_per_seat = 7187 / 100, ps_seats_booked = 2,
             ps_total_price = 14374 / 100\<rparr>\<rparr>"
proof -
  have p: "calculate_dynamic_price strptime_iso 64029052800000000 50 1 50 100
      ''2030-01-10 00:00:00'' ''medium'' = Inr (7187 / 100)"
    by (rule dynamic_price_example_9d [where strptime = strptime_iso, OF strptime_iso_9d])
      simp
  show ?thesis
    by (simp add: create_booking_def half_sold_store_def example_request_def p total_143_74
        lastrowid_def Let_def)
qed

theorem create_booking_price_witness:
  "fst (create_booking strptime_iso 64029052800000000 ''2030-01-01 00:00:00'' ''K7XQ2M''
          (example_request 2) half_sold_store)
   = Inr \<lparr>br_success = True, br_message = ''Booking created successfully'',
          br_booking = \<lparr>booking_id = 1, flight_id = 1, user_id = 7, seat_class = ''Economy'',
            seats_booked = 2, final_price = 14374 / 100,
            booking_date = ''2030-01-01 00:00:00'', status = ''Confirmed'',
            pnr = ''K7XQ2M''\<rparr>,
          br_passengers = [],
          br_pricing_summary =
            \<lparr>ps_price_per_seat = 7187 / 100, ps_seats_booked = 2,
             ps_total_price = 14374 / 100\<rparr>\<rparr>
   \<and> calculate_dynamic_price strptime_iso 64029052800000000 50 1 50 100
         ''2030-01-10 00:00:00'' ''medium'' = Inr (7187 / 100)
   \<and> Seats (snd (create_booking strptime_iso 64029052800000000 ''2030-01-01 00:00:00''
         ''K7XQ2M'' (example_request 2) half_sold_store))
         (1, ''Economy'')
       = Some \<lparr>initial_inventory = 60, available_seats = 48, price_multiplier = 1\<rparr>
   \<and> (14374 / 100 :: rat) = py_round (float_mul (7187 / 100) (of_int 2)) 2"
proof -
  note c = create_booking_price [OF example_create_half_sold]
  then obtain flight seat_info where
    f: "Flights half_sold_store (rq_flight_id (example_request 2)) = Some flight"
    and s: "Seats half_sold_store
          (rq_flight_id (example_request 2), rq_seat_class (example_request 2))
        = Some seat_info"
    and p: "calculate_dynamic_price strptime_iso 64029052800000000 (base_price flight)
          (price_multiplier seat_info) (available_seats seat_info) (total_seats flight)
          (departure_time flight) ''medium'' = Inr (7187 / 100)"
    and u: "Seats (snd (create_booking strptime_iso 64029052800000000 ''2030-01-01 00:00:00''
          ''K7XQ2M'' (example_request 2) half_sold_store))
          (rq_flight_id (example_request 2), rq_seat_class (example_request 2))
        = Some (seat_info\<lparr>available_seats :=
            available_seats seat_info - seats_count (example_request 2)\<rparr>)"
    and t: "(14374 / 100 :: rat)
        = py_round (float_mul (7187 / 100) (of_int (seats_count (example_request 2)))) 2"
    by auto
  from f have fr: "flight =
      \<lparr>base_price = 50, total_seats = 100, departure_time = ''2030-01-10 00:00:00''\<rparr>"
    by (simp add: half_sold_store_def example_request_def)
  from s have si: "seat_info =
      \<lparr>initial_inventory = 60, available_seats = 50, price_multiplier = 1\<rparr>"
    by (simp add: half_sold_store_def example_request_def)
  from p u t have "calculate_dynamic_price strptime_iso 64029052800000000 50 1 50 100
         ''2030-01-10 00:00:00'' ''medium'' = Inr (7187 / 100)
   \<and> Seats (snd (create_booking strptime_iso 64029052800000000 ''2030-01-01 00:00:00''
         ''K7XQ2M'' (example_request 2) half_sold_store))
         (1, ''Economy'')
       = Some \<lparr>initial_inventory = 60, available_seats = 48, price_multiplier = 1\<rparr>
   \<and> (14374 / 100 :: rat) = py_round (float_mul (7187 / 100) (of_int 2)) 2"
    by (simp add: fr si) (simp add: example_request_def)
  with example_create_half_sold show ?thesis by blast
qed

text \<open>
  A refund that shows the binary rounding: 75 percent of 120.06 is 90.045 in decimals, a
  tie, but the floats give a value just above it, and the refund is 90.05.
\<close>

lemma example_cancel_rounded:
  "fst (cancel_booking strptime_iso 64029052800000000 ''2030-01-01 00:00:00'' 1
          (example_store ''2030-01-03 00:00:00'' 18
             [(example_booking ''Confirmed'')\<lparr>final_price := 12006 / 100\<rparr>]))
   = Inr \<lparr>cn_success = True, cn_booking_id = 1, cn_status = ''Cancelled'',
          cn_refund_percentage = 75, cn_refund_amount = 9005 / 100\<rparr>"
proof -
  let ?b = "(example_booking ''Confirmed'')\<lparr>final_price := 12006 / 100\<rparr>"
  let ?st = "example_store ''2030-01-03 00:00:00'' 18 [?b]"
  have p: "calculate_refund_percentage strptime_iso 64029052800000000 ''2030-01-03 00:00:00''
      = 75"
    by (simp add: refund_percentage_parsed strptime_iso_48h total_seconds_def)
  have f: "find (\<lambda>b. booking_id b = 1) (Bookings ?st) = Some ?b"
    by (simp add: example_store_def example_booking_def)
  have "fst (cancel_booking strptime_iso 64029052800000000 ''2030-01-01 00:00:00'' 1 ?st)
    = Inr \<lparr>cn_success = True, cn_booking_id = 1, cn_status = ''Cancelled'',
          cn_refund_percentage =
            calculate_refund_percentage strptime_iso 64029052800000000 ''2030-01-03 00:00:00'',
          cn_refund_amount = py_round (float_div (float_mul (12006 / 100) (of_int
            (calculate_refund_percentage strptime_iso 64029052800000000
               ''2030-01-03 00:00:00''))) 100) 2\<rparr>"
    using cancel_booking_confirmed(1) [OF f, of
        "\<lparr>base_price = 100, total_seats = 100, departure_time = ''2030-01-03 00:00:00''\<rparr>"
        "\<lparr>initial_inventory = 20, available_seats = 18, price_multiplier = 1\<rparr>"
        strptime_iso 64029052800000000 "''2030-01-01 00:00:00''"]
    by (simp add: example_store_def example_booking_def)
  then show ?thesis by (simp only: p of_int_numeral refund_90_05)
qed

lemma refund_try_error:
  "refund_try strptime now dep = Inl e \<Longrightarrow> calculate_refund_percentage strptime now dep = 0"
  by (simp add: calculate_refund_percentage_def)

lemma cancel_booking_malformed:
  assumes "find (\<lambda>b. booking_id b = bid) (Bookings st) = Some booking"
    and "status booking \<noteq> ''Cancelled''"
    and "Flights st (flight_id booking) = Some flight"
    and "strptime (departure_time flight) = None"
    and "Seats st (flight_id booking, seat_class booking) = Some seat_row"
  shows "fst (cancel_booking strptime now stamp bid st) =
           Inr \<lparr>cn_success = True, cn_booking_id = bid, cn_status = ''Cancelled'',
                 cn_refund_percentage = 0, cn_refund_amount = 0\<rparr>"
    and "Transactions (snd (cancel_booking strptime now stamp bid st)) = Transactions st"
    and "find (\<lambda>b. booking_id b = bid)
           (Bookings (snd (cancel_booking strptime now stamp bid st)))
         = Some (booking\<lparr>status := ''Cancelled''\<rparr>)"
proof -
  note c = cancel_booking_confirmed [OF assms(1,2,3,5), of strptime now stamp]
  have z: "calculate_refund_percentage strptime now (departure_time flight) = 0"
    using assms(4) by (rule refund_percentage_unparsed)
  show "fst (cancel_booking strptime now stamp bid st) =
           Inr \<lparr>cn_success = True, cn_booking_id = bid, cn_status = ''Cancelled'',
                 cn_refund_percentage = 0, cn_refund_amount = 0\<rparr>"
    using c(1) by (simp add: z float_mul_zero float_div_zero py_round_zero)
  show "Transactions (snd (cancel_booking strptime now stamp bid st)) = Transactions st"
    using c(5) by (simp add: z float_mul_zero float_div_zero py_round_zero)
  show "find (\<lambda>b. booking_id b = bid)
           (Bookings (snd (cancel_booking strptime now stamp bid st)))
         = Some (booking\<lparr>status := ''Cancelled''\<rparr>)"
    using assms(1) by (simp only: c(3) find_after_cancel)
qed

text \<open>
  Claim C10. The refund percentage function has a result for every input: where the
  departure time does not parse, and for any other exception of its body, the result is 0.
  So cancelling a booking that is not yet cancelled, whose flight has a departure time that
  does not parse, succeeds with refund percentage 0 and refund amount 0: the booking
  becomes \<open>Cancelled\<close> and no refund transaction is written.
\<close>

theorem refund_percentage_swallows_errors:
  "(\<forall>strptime now dep. strptime dep = None \<longrightarrow>
      calculate_refund_percentage strptime now dep = 0)
   \<and> (\<forall>strptime now dep e. refund_try strptime now dep = Inl e \<longrightarrow>
        calculate_refund_percentage strptime now dep = 0)
   \<and> (\<forall>strptime now stamp bid st booking flight seat_row.
        find (\<lambda>b. booking_id b = bid) (Bookings st) = Some booking
        \<and> status booking \<noteq> ''Cancelled''
        \<and> Flights st (flight_id booking) = Some flight
        \<and> strptime (departure_time flight) = None
        \<and> Seats st (flight_id booking, seat_class booking) = Some seat_row \<longrightarrow>
        fst (cancel_booking strptime now stamp bid st) =
          Inr \<lparr>cn_success = True, cn_booking_id = bid, cn_status = ''Cancelled'',
                cn_refund_percentage = 0, cn_refund_amount = 0\<rparr>
        \<and> Transactions (snd (cancel_booking strptime now stamp bid st)) = Transactions st
        \<and> find (\<lambda>b. booking_id b = bid)
              (Bookings (snd (cancel_booking strptime now stamp bid st)))
            = Some (booking\<lparr>status := ''Cancelled''\<rparr>))"
proof (intro conjI allI impI; (elim conjE)?)
  fix strptime :: "string \<Rightarrow> datetime option" and now dep
  assume "strptime dep = None"
  then show "calculate_refund_percentage strptime now dep = 0"
    by (rule refund_percentage_unparsed)
next
  fix strptime :: "string \<Rightarrow> datetime option" and now dep e
  assume "refund_try strptime now dep = Inl e"
  then show "calculate_refund_percentage strptime now dep = 0"
    by (rule refund_try_error)
next
  fix strptime :: "string \<Rightarrow> datetime option" and now stamp bid and st :: store
    and booking flight seat_row
  assume a: "find (\<lambda>b. booking_id b = bid) (Bookings st) = Some booking"
    "status booking \<noteq> ''Cancelled''"
    "Flights st (flight_id booking) = Some flight"
    "strptime (departure_time flight) = None"
    "Seats st (flight_id booking, seat_class booking) = Some seat_row"
  show "fst (cancel_booking strptime now stamp bid st) =
          Inr \<lparr>cn_success = True, cn_booking_id = bid, cn_status = ''Cancelled'',
                cn_refund_percentage = 0, cn_refund_amount = 0\<rparr>"
    using a by (rule cancel_booking_malformed(1))
  show "Transactions (snd (cancel_booking strptime now stamp bid st)) = Transactions st"
    using a by (rule cancel_booking_malformed(2))
  show "find (\<lambda>b. booking_id b = bid)
              (Bookings (snd (cancel_booking strptime now stamp bid st)))
            = Some (booking\<lparr>status := ''Cancelled''\<rparr>)"
    using a by (rule cancel_booking_malformed(3))
qed

theorem refund_percentage_swallows_errors_witness:
  "(strptime_iso ''tomorrow'' = None
    \<and> calculate_refund_percentage strptime_iso 64029052800000000 ''tomorrow'' = 0)
   \<and> (refund_try strptime_iso 64029052800000000 ''tomorrow'' = Inl ValueError
    \<and> calculate_refund_percentage strptime_iso 64029052800000000 ''tomorrow'' = 0)
   \<and> (find (\<lambda>b. booking_id b = 1)
         (Bookings (example_store ''tomorrow'' 18 [example_booking ''Confirmed'']))
        = Some (example_booking ''Confirmed'')
    \<and> status (example_booking ''Confirmed'') \<noteq> ''Cancelled''
    \<and> Flights (example_store ''tomorrow'' 18 [example_booking ''Confirmed''])
         (flight_id (example_booking ''Confirmed''))
        = Some \<lparr>base_price = 100, total_seats = 100, departure_time = ''tomorrow''\<rparr>
    \<and> Seats (example_store ''tomorrow'' 18 [example_booking ''Confirmed''])
         (flight_id (example_booking ''Confirmed''), seat_class (example_booking ''Confirmed''))
        = Some \<lparr>initial_inventory = 20, available_seats = 18, price_multiplier = 1\<rparr>
    \<and> fst (cancel_booking strptime_iso 64029052800000000 ''2030-01-01 00:00:00'' 1
         (example_store ''tomorrow'' 18 [example_booking ''Confirmed'']))
        = Inr \<lparr>cn_success = True, cn_booking_id = 1, cn_status = ''Cancelled'',
               cn_refund_percentage = 0, cn_refund_amount = 0\<rparr>
    \<and> Transactions (snd (cancel_booking strptime_iso 64029052800000000
         ''2030-01-01 00:00:00'' 1
         (example_store ''tomorrow'' 18 [example_booking ''Confirmed''])))
        = Transactions (example_store ''tomorrow'' 18 [example_booking ''Confirmed''])
    \<and> find (\<lambda>b. booking_id b = 1)
         (Bookings (snd (cancel_booking strptime_iso 64029052800000000
           ''2030-01-01 00:00:00'' 1
           (example_store ''tomorrow'' 18 [example_booking ''Confirmed'']))))
        = Some ((example_booking ''Confirmed'')\<lparr>status := ''Cancelled''\<rparr>))"
proof -
  note w = refund_percentage_swallows_errors
  let ?st = "example_store ''tomorrow'' 18 [example_booking ''Confirmed'']"
  have t: "refund_try strptime_iso 64029052800000000 ''tomorrow'' = Inl ValueError"
    by (simp add: refund_try_def strptime_iso_tomorrow)
  have a: "calculate_refund_percentage strptime_iso 64029052800000000 ''tomorrow'' = 0"
    using w [THEN conjunct1, rule_format, of strptime_iso "''tomorrow''"]
      strptime_iso_tomorrow by simp
  have b: "calculate_refund_percentage strptime_iso 64029052800000000 ''tomorrow'' = 0"
    using w [THEN conjunct2, THEN conjunct1, rule_format, of strptime_iso _ "''tomorrow''"] t
    by simp
  have s: "status (example_booking ''Confirmed'') \<noteq> ''Cancelled''"
    by (simp add: example_booking_def)
  have f: "Flights ?st (flight_id (example_booking ''Confirmed''))
        = Some \<lparr>base_price = 100, total_seats = 100, departure_time = ''tomorrow''\<rparr>"
    by (simp add: example_store_def example_booking_def)
  have p: "strptime_iso (departure_time
      \<lparr>base_price = 100, total_seats = 100, departure_time = ''tomorrow''\<rparr>) = None"
    by (simp add: strptime_iso_tomorrow)
  have i: "Seats ?st
         (flight_id (example_booking ''Confirmed''), seat_class (example_booking ''Confirmed''))
        = Some \<lparr>initial_inventory = 20, available_seats = 18, price_multiplier = 1\<rparr>"
    by (simp add: example_store_def example_booking_def)
  have h: "find (\<lambda>b. booking_id b = 1) (Bookings ?st) = Some (example_booking ''Confirmed'')
        \<and> status (example_booking ''Confirmed'') \<noteq> ''Cancelled''
        \<and> Flights ?st (flight_id (example_booking ''Confirmed''))
            = Some \<lparr>base_price = 100, total_seats = 100, departure_time = ''tomorrow''\<rparr>
        \<and> strptime_iso (departure_time
             \<lparr>base_price = 100, total_seats = 100, departure_time = ''tomorrow''\<rparr>) = None
        \<and> Seats ?st (flight_id (example_booking ''Confirmed''),
             seat_class (example_booking ''Confirmed''))
            = Some \<lparr>initial_inventory = 20, available_seats = 18, price_multiplier = 1\<rparr>"
    using example_find s f p i by blast
  note c = w [THEN conjunct2, THEN conjunct2, rule_format,
      where strptime = strptime_iso and now = 64029052800000000
        and stamp = "''2030-01-01 00:00:00''", OF h]
  from a b c t s f i example_find strptime_iso_tomorrow show ?thesis by blast
qed

subsection \<open>Sequences of calls\<close>

text \<open>
  Claim C2. From an initial store (every inventory row full) every sequence of
  \<open>create_booking\<close> and \<open>cancel_booking\<close> calls leads to a store in which every inventory
  row has \<open>0 \<le> available_seats \<le> initial_inventory\<close>. After a run of successful bookings,
  with no cancellation, an inventory row that started full has
  \<open>available_seats = initial_inventory - (the seats booked on that row)\<close>.
\<close>

theorem inventory_invariant:
  "(\<forall>strptime ops st.
      initial_store st \<longrightarrow> inventory_in_bounds (apply_operations strptime ops st))
   \<and> (\<forall>strptime calls st st' key row.
        create_bookings strptime calls st = Some st' \<and> Seats st key = Some row
        \<and> available_seats row = initial_inventory row \<longrightarrow>
        Seats st' key =
          Some (row\<lparr>available_seats := initial_inventory row - booked_seats key calls\<rparr>))"
proof (intro conjI allI impI)
  fix strptime :: "string \<Rightarrow> datetime option" and ops st
  assume "initial_store st"
  then have "inventory_in_bounds st \<and> bookings_nonneg st"
    by (rule initial_store_in_bounds)
  then show "inventory_in_bounds (apply_operations strptime ops st)"
    by (simp add: apply_operations_preserve)
next
  fix strptime :: "string \<Rightarrow> datetime option" and calls and st st' :: store and key row
  assume h: "create_bookings strptime calls st = Some st' \<and> Seats st key = Some row
        \<and> available_seats row = initial_inventory row"
  then have c: "create_bookings strptime calls st = Some st'"
    and s: "Seats st key = Some row"
    and e: "available_seats row = initial_inventory row"
    by simp_all
  from create_bookings_inventory [OF c s] e
  show "Seats st' key =
      Some (row\<lparr>available_seats := initial_inventory row - booked_seats key calls\<rparr>)"
    by simp
qed

lemma example_initial: "initial_store (example_store dep 20 [])"
  by (simp add: initial_store_def example_store_def)

lemma example_create_bookings:
  "\<exists>st'. create_bookings strptime_iso
      [(64029052800000000, ''2030-01-01 00:00:00'', ''K7XQ2M'', example_request 2),
       (64029052800000000, ''2030-01-01 00:00:00'', ''P3WZ8R'', example_request 3)]
      (example_store ''2030-01-01 12:00:00'' 20 []) = Some st'"
proof -
  let ?st = "example_store ''2030-01-01 12:00:00'' 20 []"
  let ?c1 = "create_booking strptime_iso 64029052800000000 ''2030-01-01 00:00:00'' ''K7XQ2M''
      (example_request 2) ?st"
  have f: "Flights ?st (rq_flight_id (example_request 2)) =
      Some \<lparr>base_price = 100, total_seats = 100, departure_time = ''2030-01-01 12:00:00''\<rparr>"
    by (simp add: example_store_def example_request_def)
  obtain r1 where r1: "?c1 = (Inr r1, snd ?c1)"
    using example_create create_booking_fst_snd by blast
  then obtain seat_info where
    s: "Seats ?st (rq_flight_id (example_request 2), rq_seat_class (example_request 2))
        = Some seat_info"
    and ss: "Seats (snd ?c1) = (Seats ?st)
         ((rq_flight_id (example_request 2), rq_seat_class (example_request 2)) \<mapsto>
           seat_info\<lparr>available_seats :=
             available_seats seat_info - seats_count (example_request 2)\<rparr>)"
    and fs: "Flights (snd ?c1) = Flights ?st"
    by (rule create_booking_success)
  from s have si: "seat_info =
      \<lparr>initial_inventory = 20, available_seats = 20, price_multiplier = 1\<rparr>"
    by (simp add: example_store_def example_request_def)
  have f2: "Flights (snd ?c1) (rq_flight_id (example_request 3)) =
      Some \<lparr>base_price = 100, total_seats = 100, departure_time = ''2030-01-01 12:00:00''\<rparr>"
    by (simp add: fs) (simp add: example_store_def example_request_def)
  have s2: "Seats (snd ?c1) (rq_flight_id (example_request 3), rq_seat_class (example_request 3))
      = Some \<lparr>initial_inventory = 20, available_seats = 18, price_multiplier = 1\<rparr>"
    by (simp add: ss si) (simp add: example_request_def)
  have le: "seats_count (example_request 3) \<le> available_seats
      \<lparr>initial_inventory = 20, available_seats = 18, price_multiplier = 1\<rparr>"
    by (simp add: example_request_def)
  have ts: "total_seats
      \<lparr>base_price = 100, total_seats = 100, departure_time = ''2030-01-01 12:00:00''\<rparr> \<noteq> 0"
    by simp
  have dp: "strptime_iso (departure_time
      \<lparr>base_price = 100, total_seats = 100, departure_time = ''2030-01-01 12:00:00''\<rparr>)
      = Some 64029096000000000"
    by (simp add: strptime_iso_noon)
  from create_booking_succeeds [where strptime = strptime_iso, OF f2 s2 le ts dp]
  obtain r2 where "fst (create_booking strptime_iso 64029052800000000 ''2030-01-01 00:00:00''
      ''P3WZ8R'' (example_request 3) (snd ?c1)) = Inr r2"
    by blast
  then have r2: "create_booking strptime_iso 64029052800000000 ''2030-01-01 00:00:00''
      ''P3WZ8R'' (example_request 3) (snd ?c1)
    = (Inr r2, snd (create_booking strptime_iso 64029052800000000 ''2030-01-01 00:00:00''
      ''P3WZ8R'' (example_request 3) (snd ?c1)))"
    by (rule create_booking_fst_snd)
  show ?thesis
    by (subst create_bookings.simps, subst r1, simp only: prod.case sum.case,
        subst create_bookings.simps, subst r2, simp)
qed

theorem inventory_invariant_witness:
  "(initial_store (example_store ''2030-01-01 12:00:00'' 20 [])
    \<and> inventory_in_bounds (apply_operations strptime_iso
         [CreateBooking 64029052800000000 ''2030-01-01 00:00:00'' ''K7XQ2M''
            (example_request 2),
          CancelBooking 64029056400000000 ''2030-01-01 01:00:00'' 1,
          CancelBooking 64029056400000000 ''2030-01-01 01:00:00'' 1,
          CreateBooking 64029056400000000 ''2030-01-01 01:00:00'' ''P3WZ8R''
            (example_request 9)]
         (example_store ''2030-01-01 12:00:00'' 20 [])))
   \<and> (\<exists>st'. create_bookings strptime_iso
         [(64029052800000000, ''2030-01-01 00:00:00'', ''K7XQ2M'', example_request 2),
          (64029052800000000, ''2030-01-01 00:00:00'', ''P3WZ8R'', example_request 3)]
         (example_store ''2030-01-01 12:00:00'' 20 []) = Some st'
        \<and> Seats (example_store ''2030-01-01 12:00:00'' 20 []) (1, ''Economy'')
            = Some \<lparr>initial_inventory = 20, available_seats = 20, price_multiplier = 1\<rparr>
        \<and> Seats st' (1, ''Economy'')
            = Some \<lparr>initial_inventory = 20, available_seats = 15, price_multiplier = 1\<rparr>)"
proof -
  note v = inventory_invariant
  let ?st = "example_store ''2030-01-01 12:00:00'' 20 []"
  let ?calls = "[(64029052800000000, ''2030-01-01 00:00:00'', ''K7XQ2M'', example_request 2),
          (64029052800000000, ''2030-01-01 00:00:00'', ''P3WZ8R'', example_request 3)]"
  have a: "inventory_in_bounds (apply_operations strptime_iso
         [CreateBooking 64029052800000000 ''2030-01-01 00:00:00'' ''K7XQ2M''
            (example_request 2),
          CancelBooking 64029056400000000 ''2030-01-01 01:00:00'' 1,
          CancelBooking 64029056400000000 ''2030-01-01 01:00:00'' 1,
          CreateBooking 64029056400000000 ''2030-01-01 01:00:00'' ''P3WZ8R''
            (example_request 9)] ?st)"
    using v [THEN conjunct1] example_initial by blast
  obtain st' where c: "create_bookings strptime_iso ?calls ?st = Some st'"
    using example_create_bookings by blast
  have s: "Seats ?st (1, ''Economy'')
      = Some \<lparr>initial_inventory = 20, available_seats = 20, price_multiplier = 1\<rparr>"
    by (simp add: example_store_def)
  have b: "booked_seats (1, ''Economy'') ?calls = 5"
    by (simp add: example_request_def)
  have "Seats st' (1, ''Economy'') =
      Some (\<lparr>initial_inventory = 20, available_seats = 20, price_multiplier = 1\<rparr>
        \<lparr>available_seats := initial_inventory
            \<lparr>initial_inventory = 20, available_seats = 20, price_multiplier = 1\<rparr>
          - booked_seats (1, ''Economy'') ?calls\<rparr>)"
    using v [THEN conjunct2, rule_format, of strptime_iso ?calls ?st st' "(1, ''Economy'')"
        "\<lparr>initial_inventory = 20, available_seats = 20, price_multiplier = 1\<rparr>"] c s
    by simp
  then have d: "Seats st' (1, ''Economy'')
      = Some \<lparr>initial_inventory = 20, available_seats = 15, price_multiplier = 1\<rparr>"
    by (simp only: b) simp
  from a c s d example_initial show ?thesis by blast
qed

end
